theory Spec2Isabelle
  imports Complex_Main
begin

text \<open>
  A model of the bookstore backend: the handlers for genres, books and orders and the
  aggregation of orders, over a relational store with the tables, unique indexes and
  foreign keys of the migration. Each handler is a function from the request and the store
  to the response and the new store. Outside the model, and arguments of the handlers where
  they matter: the clock, the identifiers the store generates, token verification, and the
  queries that select and join the orders an aggregation reads.
\<close>

section \<open>JavaScript numbers\<close>

text \<open>
  The handlers convert request fields with \<^verbatim>\<open>Number(...)\<close> and test the result with
  \<^verbatim>\<open>Number.isNaN\<close>, \<^verbatim>\<open>Number.isInteger\<close> and \<^verbatim>\<open><\<close>. A JavaScript number is modelled
  as a finite value (an exact rational: rounding of doubles is not modelled), one of the
  two infinities, or NaN. Comparisons with NaN are false, as in JavaScript.
\<close>

datatype jsnum = Num rat | PosInf | NegInf | NaN

fun js_lt :: "jsnum \<Rightarrow> jsnum \<Rightarrow> bool" where
  "js_lt NaN _ = False"
| "js_lt _ NaN = False"
| "js_lt (Num a) (Num b) = (a < b)"
| "js_lt NegInf NegInf = False"
| "js_lt NegInf _ = True"
| "js_lt _ NegInf = False"
| "js_lt PosInf _ = False"
| "js_lt _ PosInf = True"

definition js_gt :: "jsnum \<Rightarrow> jsnum \<Rightarrow> bool" where
  "js_gt a b = js_lt b a"

definition isNaN :: "jsnum \<Rightarrow> bool" where
  "isNaN n = (n = NaN)"

definition isInteger :: "jsnum \<Rightarrow> bool" where
  "isInteger n = (case n of Num r \<Rightarrow> of_int \<lfloor>r\<rfloor> = r | _ \<Rightarrow> False)"


text \<open>Truthiness of an optional string: \<^verbatim>\<open>undefined\<close> and the empty string are falsy.\<close>

definition falsy :: "string option \<Rightarrow> bool" where
  "falsy v = (case v of None \<Rightarrow> True | Some s \<Rightarrow> s = [])"

text \<open>\<^verbatim>\<open>if (v !== undefined) { ... P(v) ... }\<close>: the field is present and \<open>P\<close> holds of it.\<close>

definition provided :: "'a option \<Rightarrow> ('a \<Rightarrow> bool) \<Rightarrow> bool" where
  "provided v P = (case v of None \<Rightarrow> False | Some x \<Rightarrow> P x)"

section \<open>The relational store\<close>

text \<open>
  The tables of \<^verbatim>\<open>prisma/migrations/20251021133535_init/migration.sql\<close>. Timestamps are
  milliseconds; a nullable column is an option. \<^verbatim>\<open>publication_year\<close>, \<^verbatim>\<open>stock_quantity\<close>
  and \<^verbatim>\<open>quantity\<close> are INTEGER columns, \<^verbatim>\<open>price\<close> is DOUBLE PRECISION (held as a finite
  rational here).
\<close>

type_synonym time = nat

record user_row =
  u_id :: string
  u_username :: "string option"
  u_password :: string
  u_email :: string
  u_created_at :: time
  u_updated_at :: time

record genre_row =
  g_id :: string
  g_name :: string
  g_created_at :: time
  g_updated_at :: time
  g_deleted_at :: "time option"

record book_row =
  b_id :: string
  b_title :: string
  b_writer :: string
  b_publisher :: string
  b_publication_year :: int
  b_description :: "string option"
  b_price :: rat
  b_stock_quantity :: int
  b_genre_id :: string
  b_created_at :: time
  b_updated_at :: time
  b_deleted_at :: "time option"

record order_row =
  o_id :: string
  o_user_id :: string
  o_created_at :: time
  o_updated_at :: time

record order_item_row =
  oi_id :: string
  oi_quantity :: int
  oi_order_id :: string
  oi_book_id :: string
  oi_created_at :: time
  oi_updated_at :: time

record store =
  users :: "user_row list"
  genres :: "genre_row list"
  books :: "book_row list"
  orders :: "order_row list"
  order_items :: "order_item_row list"

text \<open>
  The errors a Prisma call throws: \<^verbatim>\<open>P2002\<close> (unique constraint), \<^verbatim>\<open>P2003\<close> (foreign key),
  \<^verbatim>\<open>P2025\<close> (record to update not found), and a value that does not fit its column.
\<close>

datatype prisma_error = P2002 | P2003 | P2025 | ColumnType

definition int_column :: "jsnum \<Rightarrow> int option" where
  "int_column v =
     (case v of
        Num r \<Rightarrow>
          (if of_int \<lfloor>r\<rfloor> = r \<and> - 2147483648 \<le> \<lfloor>r\<rfloor> \<and> \<lfloor>r\<rfloor> \<le> 2147483647
           then Some \<lfloor>r\<rfloor> else None)
      | _ \<Rightarrow> None)"

definition float_column :: "jsnum \<Rightarrow> rat option" where
  "float_column v = (case v of Num r \<Rightarrow> Some r | _ \<Rightarrow> None)"

text \<open>
  A column of an update's \<^verbatim>\<open>data\<close>: absent keeps the old value. A write checks the unique
  index and the foreign key of the columns it sets.
\<close>

definition col :: "('a \<Rightarrow> 'b option) \<Rightarrow> 'a option \<Rightarrow> 'b \<Rightarrow> 'b option" where
  "col conv v old = (case v of None \<Rightarrow> Some old | Some x \<Rightarrow> conv x)"

definition keep :: "'a option \<Rightarrow> 'a \<Rightarrow> 'a" where
  "keep v old = (case v of None \<Rightarrow> old | Some x \<Rightarrow> x)"

subsection \<open>genres\<close>

record genre_data =
  gd_name :: "string option"
  gd_created_at :: "time option"
  gd_updated_at :: "time option"
  gd_deleted_at :: "time option option"

definition apply_genre_data :: "genre_data \<Rightarrow> genre_row \<Rightarrow> genre_row" where
  "apply_genre_data d g =
     g\<lparr>g_name := keep (gd_name d) (g_name g),
       g_created_at := keep (gd_created_at d) (g_created_at g),
       g_updated_at := keep (gd_updated_at d) (g_updated_at g),
       g_deleted_at := keep (gd_deleted_at d) (g_deleted_at g)\<rparr>"

definition prisma_genres_findUnique_id :: "string \<Rightarrow> store \<Rightarrow> genre_row option" where
  "prisma_genres_findUnique_id i s = find (\<lambda>g. g_id g = i) (genres s)"

definition prisma_genres_findUnique_name :: "string \<Rightarrow> store \<Rightarrow> genre_row option" where
  "prisma_genres_findUnique_name n s = find (\<lambda>g. g_name g = n) (genres s)"

definition prisma_genres_update ::
  "string \<Rightarrow> genre_data \<Rightarrow> store \<Rightarrow> prisma_error + genre_row \<times> store" where
  "prisma_genres_update i d s =
     (case prisma_genres_findUnique_id i s of
        None \<Rightarrow> Inl P2025
      | Some g \<Rightarrow>
          (let g' = apply_genre_data d g in
           if provided (gd_name d) (\<lambda>n. \<exists>x \<in> set (genres s). g_id x \<noteq> i \<and> g_name x = n)
           then Inl P2002
           else Inr (g', s\<lparr>genres := map (\<lambda>x. if g_id x = i then g' else x) (genres s)\<rparr>)))"

definition prisma_genres_create ::
  "string \<Rightarrow> genre_data \<Rightarrow> store \<Rightarrow> prisma_error + genre_row \<times> store" where
  "prisma_genres_create new_id d s =
     (case gd_name d of
        None \<Rightarrow> Inl ColumnType
      | Some n \<Rightarrow>
          (let g = apply_genre_data d
                     \<lparr>g_id = new_id, g_name = n, g_created_at = 0, g_updated_at = 0,
                      g_deleted_at = None\<rparr> in
           if \<exists>x \<in> set (genres s). g_id x = new_id \<or> g_name x = n then Inl P2002
           else Inr (g, s\<lparr>genres := genres s @ [g]\<rparr>)))"

subsection \<open>books\<close>

record book_data =
  bd_title :: "string option"
  bd_writer :: "string option"
  bd_publisher :: "string option"
  bd_description :: "string option option"
  bd_publication_year :: "jsnum option"
  bd_price :: "jsnum option"
  bd_stock_quantity :: "jsnum option"
  bd_genre_id :: "string option"
  bd_created_at :: "time option"
  bd_updated_at :: "time option"
  bd_deleted_at :: "time option option"

definition no_book_data :: book_data where
  "no_book_data =
     \<lparr>bd_title = None, bd_writer = None, bd_publisher = None, bd_description = None,
      bd_publication_year = None, bd_price = None, bd_stock_quantity = None,
      bd_genre_id = None, bd_created_at = None, bd_updated_at = None, bd_deleted_at = None\<rparr>"

definition apply_book_data :: "book_data \<Rightarrow> book_row \<Rightarrow> book_row option" where
  "apply_book_data d b =
     (case col int_column (bd_publication_year d) (b_publication_year b) of
        None \<Rightarrow> None
      | Some y \<Rightarrow>
     (case col float_column (bd_price d) (b_price b) of
        None \<Rightarrow> None
      | Some p \<Rightarrow>
     (case col int_column (bd_stock_quantity d) (b_stock_quantity b) of
        None \<Rightarrow> None
      | Some q \<Rightarrow>
          Some (b\<lparr>b_title := keep (bd_title d) (b_title b),
                  b_writer := keep (bd_writer d) (b_writer b),
                  b_publisher := keep (bd_publisher d) (b_publisher b),
                  b_publication_year := y,
                  b_description := keep (bd_description d) (b_description b),
                  b_price := p,
                  b_stock_quantity := q,
                  b_genre_id := keep (bd_genre_id d) (b_genre_id b),
                  b_created_at := keep (bd_created_at d) (b_created_at b),
                  b_updated_at := keep (bd_updated_at d) (b_updated_at b),
                  b_deleted_at := keep (bd_deleted_at d) (b_deleted_at b)\<rparr>))))"

definition prisma_books_findUnique :: "string \<Rightarrow> store \<Rightarrow> book_row option" where
  "prisma_books_findUnique i s = find (\<lambda>b. b_id b = i) (books s)"

definition prisma_books_findFirst :: "(book_row \<Rightarrow> bool) \<Rightarrow> store \<Rightarrow> book_row option" where
  "prisma_books_findFirst w s = find w (books s)"

definition prisma_books_update ::
  "string \<Rightarrow> book_data \<Rightarrow> store \<Rightarrow> prisma_error + book_row \<times> store" where
  "prisma_books_update i d s =
     (case prisma_books_findUnique i s of
        None \<Rightarrow> Inl P2025
      | Some b \<Rightarrow>
          (case apply_book_data d b of
             None \<Rightarrow> Inl ColumnType
           | Some b' \<Rightarrow>
               if provided (bd_title d) (\<lambda>t. \<exists>x \<in> set (books s). b_id x \<noteq> i \<and> b_title x = t)
               then Inl P2002
               else if provided (bd_genre_id d) (\<lambda>g. prisma_genres_findUnique_id g s = None)
               then Inl P2003
               else Inr (b', s\<lparr>books := map (\<lambda>x. if b_id x = i then b' else x) (books s)\<rparr>)))"

definition prisma_books_create ::
  "string \<Rightarrow> book_data \<Rightarrow> store \<Rightarrow> prisma_error + book_row \<times> store" where
  "prisma_books_create new_id d s =
     (if bd_title d = None \<or> bd_writer d = None \<or> bd_publisher d = None
         \<or> bd_publication_year d = None \<or> bd_price d = None \<or> bd_stock_quantity d = None
         \<or> bd_genre_id d = None
      then Inl ColumnType
      else
        (case apply_book_data d
                \<lparr>b_id = new_id, b_title = [], b_writer = [], b_publisher = [],
                 b_publication_year = 0, b_description = None, b_price = 0,
                 b_stock_quantity = 0, b_genre_id = [], b_created_at = 0, b_updated_at = 0,
                 b_deleted_at = None\<rparr> of
           None \<Rightarrow> Inl ColumnType
         | Some b \<Rightarrow>
             if \<exists>x \<in> set (books s). b_id x = new_id \<or> b_title x = b_title b then Inl P2002
             else if prisma_genres_findUnique_id (b_genre_id b) s = None then Inl P2003
             else Inr (b, s\<lparr>books := books s @ [b]\<rparr>)))"

section \<open>Requests and responses\<close>

text \<open>
  Every response is the JSON envelope \<^verbatim>\<open>{success, message, data?}\<close> with its HTTP status.
  The clock (\<^verbatim>\<open>new Date()\<close>, read once per request here), the current year and the
  identifier the store generates for a new row are arguments of the handlers.
\<close>

record 'a response =
  status :: nat
  success :: bool
  message :: string
  data :: "'a option"

definition reply :: "nat \<Rightarrow> bool \<Rightarrow> string \<Rightarrow> 'a option \<Rightarrow> 'a response" where
  "reply st ok msg d = \<lparr>status = st, success = ok, message = msg, data = d\<rparr>"

section \<open>Genre handlers (genreController)\<close>

record genre_request =
  gr_authorization :: "string option"
  gr_genre_id :: string
  gr_name :: "string option"

definition no_genre_data :: genre_data where
  "no_genre_data =
     \<lparr>gd_name = None, gd_created_at = None, gd_updated_at = None, gd_deleted_at = None\<rparr>"

definition createGenre ::
  "time \<Rightarrow> string \<Rightarrow> genre_request \<Rightarrow> store \<Rightarrow> genre_row response \<times> store" where
  "createGenre now new_id req s =
     (if gr_authorization req = None then (reply 401 False ''Token tidak ditemukan.'' None, s)
      else if falsy (gr_name req) then (reply 400 False ''Nama genre wajib diisi.'' None, s)
      else
        (let name = the (gr_name req) in
         case prisma_genres_findUnique_name name s of
           Some existing \<Rightarrow>
             if g_deleted_at existing = None
             then (reply 400 False ''Genre sudah terdaftar.'' None, s)
             else
               (case prisma_genres_update (g_id existing)
                       (no_genre_data\<lparr>gd_deleted_at := Some None, gd_updated_at := Some now\<rparr>) s of
                  Inl e \<Rightarrow> (reply 500 False ''Terjadi kesalahan server.'' None, s)
                | Inr (restored, s') \<Rightarrow>
                    (reply 200 True ''Genre berhasil dibuat. (restore dari soft delete).''
                       (Some restored), s'))
         | None \<Rightarrow>
             (case prisma_genres_create new_id
                     \<lparr>gd_name = Some name, gd_created_at = Some now, gd_updated_at = Some now,
                      gd_deleted_at = Some None\<rparr> s of
                Inl e \<Rightarrow> (reply 500 False ''Terjadi kesalahan server.'' None, s)
              | Inr (genre, s') \<Rightarrow> (reply 201 True ''Genre berhasil dibuat.'' (Some genre), s'))))"

definition updateGenre ::
  "time \<Rightarrow> genre_request \<Rightarrow> store \<Rightarrow> genre_row response \<times> store" where
  "updateGenre now req s =
     (if gr_authorization req = None then (reply 401 False ''Token tidak ditemukan.'' None, s)
      else
        (case prisma_genres_findUnique_id (gr_genre_id req) s of
           None \<Rightarrow> (reply 404 False ''Genre tidak ditemukan.'' None, s)
         | Some genre \<Rightarrow>
             (case prisma_genres_update (gr_genre_id req)
                     (no_genre_data
                        \<lparr>gd_name := Some (if falsy (gr_name req) then g_name genre
                                          else the (gr_name req)),
                         gd_updated_at := Some now\<rparr>) s of
                Inl e \<Rightarrow> (reply 500 False ''Terjadi kesalahan server.'' None, s)
              | Inr (updated, s') \<Rightarrow>
                  (reply 200 True ''Genre berhasil diperbarui.'' (Some updated), s'))))"

definition deleteGenre ::
  "time \<Rightarrow> genre_request \<Rightarrow> store \<Rightarrow> genre_row response \<times> store" where
  "deleteGenre now req s =
     (if gr_authorization req = None then (reply 401 False ''Token tidak ditemukan.'' None, s)
      else
        (case prisma_genres_findUnique_id (gr_genre_id req) s of
           None \<Rightarrow> (reply 404 False ''Genre tidak ditemukan.'' None, s)
         | Some genre \<Rightarrow>
             (let bs = filter (\<lambda>b. b_genre_id b = gr_genre_id req) (books s) in
              if length bs > 0
              then (reply 400 False
                      ''Genre tidak dapat dihapus karena masih digunakan oleh buku.'' None, s)
              else
                (case prisma_genres_update (gr_genre_id req)
                        (no_genre_data\<lparr>gd_deleted_at := Some (Some now),
                                       gd_updated_at := Some now\<rparr>) s of
                   Inl e \<Rightarrow> (reply 500 False ''Terjadi kesalahan server.'' None, s)
                 | Inr (deleted, s') \<Rightarrow>
                     (reply 200 True ''Genre berhasil dihapus (soft delete).''
                        (Some deleted), s')))))"

section \<open>Book handlers (libraryController)\<close>

text \<open>
  The numeric body fields hold the value of \<^verbatim>\<open>Number(field)\<close>; \<open>None\<close> is a field that
  is \<^verbatim>\<open>undefined\<close> in the body.
\<close>

record book_request =
  br_authorization :: "string option"
  br_book_id :: string
  br_title :: "string option"
  br_writer :: "string option"
  br_publisher :: "string option"
  br_description :: "string option"
  br_publication_year :: "jsnum option"
  br_price :: "jsnum option"
  br_stock_quantity :: "jsnum option"
  br_genre_id :: "string option"

definition createBook ::
  "time \<Rightarrow> int \<Rightarrow> string \<Rightarrow> book_request \<Rightarrow> store \<Rightarrow> book_row response \<times> store" where
  "createBook now thisYear new_id req s =
     (if br_authorization req = None then (reply 401 False ''Token tidak ditemukan.'' None, s)
      else if falsy (br_title req) \<or> falsy (br_writer req) \<or> falsy (br_publisher req)
              \<or> br_publication_year req = None \<or> br_price req = None
              \<or> br_stock_quantity req = None \<or> falsy (br_genre_id req)
      then (reply 400 False
              ''Field title, writer, publisher, publication_year, price, stock_quantity, dan genre_id wajib diisi.''
              None, s)
      else
        (let title = the (br_title req);
             pubYear = the (br_publication_year req);
             bookPrice = the (br_price req);
             stockQty = the (br_stock_quantity req);
             genre_id = the (br_genre_id req) in
         if isNaN pubYear \<or> isNaN bookPrice \<or> isNaN stockQty
         then (reply 400 False
                 ''publication_year, price, dan stock_quantity harus berupa number.'' None, s)
         else if js_lt bookPrice (Num 0)
         then (reply 400 False ''price tidak boleh bernilai negatif.'' None, s)
         else if js_lt stockQty (Num 0) \<or> \<not> isInteger stockQty
         then (reply 400 False
                 ''stock_quantity harus bilangan bulat dan tidak boleh negatif.'' None, s)
         else if js_lt pubYear (Num 0) \<or> js_gt pubYear (Num (of_int (thisYear + 1)))
         then (reply 400 False ''publication_year tidak valid.'' None, s)
         else if prisma_genres_findUnique_id genre_id s = None
         then (reply 404 False ''Genre tidak ditemukan.'' None, s)
         else if prisma_books_findFirst (\<lambda>b. b_title b = title \<and> b_deleted_at b = None) s \<noteq> None
         then (reply 409 False ''Buku dengan judul ini sudah ada (aktif).'' None, s)
         else
           (case prisma_books_findFirst (\<lambda>b. b_title b = title \<and> b_deleted_at b \<noteq> None) s of
              Some existingDeleted \<Rightarrow>
                (case prisma_books_update (b_id existingDeleted)
                        (no_book_data
                           \<lparr>bd_deleted_at := Some None,
                            bd_writer := br_writer req,
                            bd_publisher := br_publisher req,
                            bd_description :=
                              Some (if falsy (br_description req) then None
                                    else br_description req),
                            bd_publication_year := Some pubYear,
                            bd_price := Some bookPrice,
                            bd_stock_quantity := Some stockQty,
                            bd_genre_id := Some genre_id,
                            bd_updated_at := Some now\<rparr>) s of
                   Inl P2002 \<Rightarrow>
                     (reply 409 False ''Data sudah ada (melanggar unique constraint).'' None, s)
                 | Inl P2003 \<Rightarrow>
                     (reply 400 False ''Relasi tidak valid (cek genre_id).'' None, s)
                 | Inl e \<Rightarrow> (reply 500 False ''Terjadi kesalahan server.'' None, s)
                 | Inr (restoredBook, s') \<Rightarrow>
                     (reply 200 True ''Buku berhasil ditambahkan kembali.''
                        (Some restoredBook), s'))
            | None \<Rightarrow>
                (case prisma_books_create new_id
                        (no_book_data
                           \<lparr>bd_title := Some title,
                            bd_writer := br_writer req,
                            bd_publisher := br_publisher req,
                            bd_description :=
                              Some (if falsy (br_description req) then None
                                    else br_description req),
                            bd_publication_year := Some pubYear,
                            bd_price := Some bookPrice,
                            bd_stock_quantity := Some stockQty,
                            bd_genre_id := Some genre_id,
                            bd_created_at := Some now,
                            bd_updated_at := Some now\<rparr>) s of
                   Inl P2002 \<Rightarrow>
                     (reply 409 False ''Data sudah ada (melanggar unique constraint).'' None, s)
                 | Inl P2003 \<Rightarrow>
                     (reply 400 False ''Relasi tidak valid (cek genre_id).'' None, s)
                 | Inl e \<Rightarrow> (reply 500 False ''Terjadi kesalahan server.'' None, s)
                 | Inr (newBook, s') \<Rightarrow>
                     (reply 201 True ''Buku berhasil ditambahkan.'' (Some newBook), s')))))"

text \<open>The \<^verbatim>\<open>data\<close> object that \<^verbatim>\<open>updateBook\<close> builds from the fields present in the body.\<close>

definition updateBook_data :: "time \<Rightarrow> book_request \<Rightarrow> book_data" where
  "updateBook_data now req =
     no_book_data
       \<lparr>bd_updated_at := Some now,
        bd_title := br_title req,
        bd_writer := br_writer req,
        bd_publisher := br_publisher req,
        bd_description := map_option Some (br_description req),
        bd_publication_year := br_publication_year req,
        bd_price := br_price req,
        bd_stock_quantity := br_stock_quantity req,
        bd_genre_id := br_genre_id req\<rparr>"

definition updateBook ::
  "time \<Rightarrow> book_request \<Rightarrow> store \<Rightarrow> book_row response \<times> store" where
  "updateBook now req s =
     (if br_authorization req = None then (reply 401 False ''Token tidak ditemukan.'' None, s)
      else if prisma_books_findFirst
                (\<lambda>b. b_id b = br_book_id req \<and> b_deleted_at b = None) s = None
      then (reply 404 False ''Buku tidak ditemukan.'' None, s)
      else if provided (br_publication_year req) isNaN
      then (reply 400 False ''publication_year harus number.'' None, s)
      else if provided (br_price req) isNaN
      then (reply 400 False ''price harus number.'' None, s)
      else if provided (br_price req) (\<lambda>bookPrice. js_lt bookPrice (Num 0))
      then (reply 400 False ''price tidak boleh negatif.'' None, s)
      else if provided (br_stock_quantity req) isNaN
      then (reply 400 False ''stock_quantity harus number.'' None, s)
      else if provided (br_stock_quantity req)
                (\<lambda>stockQty. js_lt stockQty (Num 0) \<or> \<not> isInteger stockQty)
      then (reply 400 False
              ''stock_quantity harus bilangan bulat dan tidak boleh negatif.'' None, s)
      else if provided (br_genre_id req) (\<lambda>genre_id. prisma_genres_findUnique_id genre_id s = None)
      then (reply 400 False ''genre_id tidak valid.'' None, s)
      else
        (case prisma_books_update (br_book_id req) (updateBook_data now req) s of
           Inl P2002 \<Rightarrow>
             (reply 409 False
                ''Data melanggar unique constraint (mungkin title sudah digunakan).'' None, s)
         | Inl e \<Rightarrow> (reply 500 False ''Terjadi kesalahan server.'' None, s)
         | Inr (updated, s') \<Rightarrow> (reply 200 True ''Buku berhasil diperbarui.'' (Some updated), s')))"

definition deleteBook ::
  "time \<Rightarrow> book_request \<Rightarrow> store \<Rightarrow> book_row response \<times> store" where
  "deleteBook now req s =
     (if br_authorization req = None then (reply 401 False ''Token tidak ditemukan.'' None, s)
      else
        (case prisma_books_findFirst
                (\<lambda>b. b_id b = br_book_id req \<and> b_deleted_at b = None) s of
           None \<Rightarrow> (reply 404 False ''Buku tidak ditemukan.'' None, s)
         | Some book \<Rightarrow>
             (let book_order_items =
                    take 1 (filter (\<lambda>oi. oi_book_id oi = b_id book) (order_items s)) in
              if length book_order_items > 0
              then (reply 400 False
                      ''Buku tidak bisa dihapus karena sudah memiliki transaksi pembelian.''
                      None, s)
              else
                (case prisma_books_update (br_book_id req)
                        (no_book_data\<lparr>bd_deleted_at := Some (Some now),
                                      bd_updated_at := Some now\<rparr>) s of
                   Inl e \<Rightarrow> (reply 500 False ''Terjadi kesalahan server.'' None, s)
                 | Inr (deleted, s') \<Rightarrow>
                     (reply 200 True ''Buku berhasil dihapus.'' (Some deleted), s')))))"

section \<open>Order creation (transactionController)\<close>

subsection \<open>orders and order_items\<close>

definition prisma_users_findUnique :: "string \<Rightarrow> store \<Rightarrow> user_row option" where
  "prisma_users_findUnique i s = find (\<lambda>u. u_id u = i) (users s)"

definition prisma_orders_create :: "order_row \<Rightarrow> store \<Rightarrow> prisma_error + order_row \<times> store" where
  "prisma_orders_create row s =
     (if \<exists>x \<in> set (orders s). o_id x = o_id row then Inl P2002
      else if prisma_users_findUnique (o_user_id row) s = None then Inl P2003
      else Inr (row, s\<lparr>orders := orders s @ [row]\<rparr>))"

definition prisma_order_items_create ::
  "string \<Rightarrow> string \<Rightarrow> string \<Rightarrow> jsnum \<Rightarrow> time \<Rightarrow> time \<Rightarrow> store
     \<Rightarrow> prisma_error + order_item_row \<times> store" where
  "prisma_order_items_create new_id order_id book_id quantity created updated s =
     (case int_column quantity of
        None \<Rightarrow> Inl ColumnType
      | Some q \<Rightarrow>
          if \<exists>x \<in> set (order_items s). oi_id x = new_id then Inl P2002
          else if find (\<lambda>x. o_id x = order_id) (orders s) = None
                  \<or> prisma_books_findUnique book_id s = None then Inl P2003
          else
            (let row = \<lparr>oi_id = new_id, oi_quantity = q, oi_order_id = order_id,
                        oi_book_id = book_id, oi_created_at = created,
                        oi_updated_at = updated\<rparr>
             in Inr (row, s\<lparr>order_items := order_items s @ [row]\<rparr>)))"

subsection \<open>The request\<close>

text \<open>
  \<open>ti_quantity\<close> is \<open>None\<close> when \<^verbatim>\<open>typeof item.quantity\<close> is not \<^verbatim>\<open>"number"\<close>; \<open>tr_items\<close> is
  \<open>None\<close> when \<^verbatim>\<open>items\<close> is not an array.
\<close>

record tx_item =
  ti_book_id :: "string option"
  ti_quantity :: "jsnum option"

record tx_request =
  tr_authorization :: "string option"
  tr_user_id :: "string option"
  tr_items :: "tx_item list option"

record tx_created =
  tc_order :: order_row
  tc_items :: "order_item_row list"

text \<open>
  \<^verbatim>\<open>Promise.all(items.map(item => prisma.order_items.create(...)))\<close>: every create is
  started, whatever the others do; the \<open>k\<close>-th new row gets the identifier \<open>item_id k\<close>.
\<close>

fun create_order_items ::
  "time \<Rightarrow> (nat \<Rightarrow> string) \<Rightarrow> string \<Rightarrow> nat \<Rightarrow> tx_item list \<Rightarrow> store
     \<Rightarrow> (prisma_error + order_item_row) list \<times> store" where
  "create_order_items now item_id order_id k [] s = ([], s)"
| "create_order_items now item_id order_id k (item # items) s =
     (case prisma_order_items_create (item_id k) order_id (the (ti_book_id item))
             (the (ti_quantity item)) now now s of
        Inl e \<Rightarrow>
          (case create_order_items now item_id order_id (Suc k) items s of
             (rs, s') \<Rightarrow> (Inl e # rs, s'))
      | Inr (row, s1) \<Rightarrow>
          (case create_order_items now item_id order_id (Suc k) items s1 of
             (rs, s') \<Rightarrow> (Inr row # rs, s')))"

text \<open>\<^verbatim>\<open>await Promise.all(...)\<close>: the rows when every create succeeded, else it throws.\<close>

fun promise_all :: "('e + 'a) list \<Rightarrow> 'e + 'a list" where
  "promise_all [] = Inr []"
| "promise_all (Inl e # rs) = Inl e"
| "promise_all (Inr a # rs) = (case promise_all rs of Inl e \<Rightarrow> Inl e | Inr as \<Rightarrow> Inr (a # as))"

subsection \<open>The handler that names its order with \<^verbatim>\<open>uuidv4()\<close>\<close>

text \<open>
  The \<^verbatim>\<open>createTransaction\<close> that checks the user and every book before it writes (the second
  module of \<^verbatim>\<open>src/controllers/libraryController.ts\<close> as delivered).
\<close>

definition createTransaction_uuid ::
  "time \<Rightarrow> string \<Rightarrow> (nat \<Rightarrow> string) \<Rightarrow> tx_request \<Rightarrow> store \<Rightarrow> tx_created response \<times> store" where
  "createTransaction_uuid now orderId item_id req s =
     (if tr_authorization req = None then (reply 401 False ''Token tidak ditemukan.'' None, s)
      else if falsy (tr_user_id req) \<or> tr_items req = None \<or> length (the (tr_items req)) = 0
      then (reply 400 False ''Invalid request body: user_id dan items wajib diisi'' None, s)
      else
        (let user_id = the (tr_user_id req); items = the (tr_items req) in
         if \<exists>item \<in> set items. falsy (ti_book_id item) \<or> ti_quantity item = None
         then (reply 400 False
                 ''Setiap item harus memiliki book_id dan quantity (number)'' None, s)
         else if prisma_users_findUnique user_id s = None
         then (reply 404 False ''User tidak ditemukan. Pastikan user_id valid.'' None, s)
         else
           (case find (\<lambda>item. prisma_books_findUnique (the (ti_book_id item)) s = None) items of
              Some item \<Rightarrow>
                (reply 404 False
                   (''Buku dengan id '' @ the (ti_book_id item) @ '' tidak ditemukan.'') None, s)
            | None \<Rightarrow>
                (case prisma_orders_create
                        \<lparr>o_id = orderId, o_user_id = user_id, o_created_at = now,
                         o_updated_at = now\<rparr> s of
                   Inl e \<Rightarrow> (reply 500 False ''Internal server error'' None, s)
                 | Inr (order, s1) \<Rightarrow>
                     (case create_order_items now item_id (o_id order) 0 items s1 of
                        (rs, s2) \<Rightarrow>
                          (case promise_all rs of
                             Inl e \<Rightarrow> (reply 500 False ''Internal server error'' None, s2)
                           | Inr orderItems \<Rightarrow>
                               (reply 201 True ''Transaction (order) created successfully''
                                  (Some \<lparr>tc_order = order, tc_items = orderItems\<rparr>), s2)))))))"

subsection \<open>The handler that names its order with \<^verbatim>\<open>bcrypt.hash\<close>\<close>

text \<open>
  The \<^verbatim>\<open>createTransaction\<close> of \<^verbatim>\<open>src/controllers/transactionController.ts\<close>: after the
  shape of the body is validated it writes the order and then the items.
\<close>

definition createTransaction_bcrypt ::
  "time \<Rightarrow> string \<Rightarrow> (nat \<Rightarrow> string) \<Rightarrow> tx_request \<Rightarrow> store \<Rightarrow> tx_created response \<times> store" where
  "createTransaction_bcrypt now hashedId item_id req s =
     (if tr_authorization req = None then (reply 401 False ''Token tidak ditemukan.'' None, s)
      else if falsy (tr_user_id req) \<or> tr_items req = None \<or> length (the (tr_items req)) = 0
      then (reply 400 False ''Invalid request body: user_id dan items wajib diisi'' None, s)
      else
        (let user_id = the (tr_user_id req); items = the (tr_items req) in
         if \<exists>item \<in> set items. falsy (ti_book_id item) \<or> ti_quantity item = None
         then (reply 400 False
                 ''Setiap item harus memiliki book_id dan quantity (number)'' None, s)
         else
           (case prisma_orders_create
                   \<lparr>o_id = hashedId, o_user_id = user_id, o_created_at = now,
                    o_updated_at = now\<rparr> s of
              Inl e \<Rightarrow> (reply 500 False ''Internal server error'' None, s)
            | Inr (order, s1) \<Rightarrow>
                (case create_order_items now item_id (o_id order) 0 items s1 of
                   (rs, s2) \<Rightarrow>
                     (case promise_all rs of
                        Inl e \<Rightarrow> (reply 500 False ''Internal server error'' None, s2)
                      | Inr orderItems \<Rightarrow>
                          (reply 201 True ''Transaction (order) created successfully''
                             (Some \<lparr>tc_order = order, tc_items = orderItems\<rparr>), s2))))))"

section \<open>The transaction aggregator\<close>

text \<open>
  What \<^verbatim>\<open>prisma.orders.findMany({include: {order_items: {include: {book: ...}}}})\<close> returns:
  each order with its items, each item with its book, the book with its genre when the
  query includes it.
\<close>

record book_incl =
  bi_id :: string
  bi_title :: string
  bi_price :: rat
  bi_genre :: "genre_row option"

record item_incl =
  ii_id :: string
  ii_quantity :: int
  ii_book :: book_incl

record order_incl =
  oc_id :: string
  oc_user_id :: string
  oc_order_items :: "item_incl list"

subsection \<open>Arithmetic and sorting of JavaScript\<close>




subsection \<open>getAllTransactions: totals per order\<close>




subsection \<open>getTransactionStats\<close>

text \<open>
  \<^verbatim>\<open>genreStats\<close> is a JavaScript object used as a dictionary: a list of its own properties
  in the order they were created (property names inherited from \<^verbatim>\<open>Object.prototype\<close> are
  not modelled). \<^verbatim>\<open>Object.entries\<close> lists the properties whose name is an array index
  first, by ascending index, then the others in creation order.
\<close>

type_synonym js_object = "(string \<times> nat) list"

definition obj_get :: "js_object \<Rightarrow> string \<Rightarrow> nat option" where
  "obj_get obj k = map_of obj k"

definition obj_set :: "js_object \<Rightarrow> string \<Rightarrow> nat \<Rightarrow> js_object" where
  "obj_set obj k v =
     (if k \<in> fst ` set obj then map (\<lambda>(k', v'). if k' = k then (k', v) else (k', v')) obj
      else obj @ [(k, v)])"




text \<open>\<^verbatim>\<open>new Set(xs)\<close>: the distinct elements in order of first occurrence.\<close>

definition set_add :: "'a list \<Rightarrow> 'a \<Rightarrow> 'a list" where
  "set_add acc x = (if x \<in> set acc then acc else acc @ [x])"

definition new_Set :: "'a list \<Rightarrow> 'a list" where
  "new_Set xs = foldl set_add [] xs"

definition uniqueGenres :: "order_incl \<Rightarrow> string option list" where
  "uniqueGenres t = new_Set (map (\<lambda>item. map_option g_name (bi_genre (ii_book item))) (oc_order_items t))"

definition count_genre :: "js_object \<Rightarrow> string option \<Rightarrow> js_object" where
  "count_genre genreStats genre =
     (if falsy genre then genreStats
      else obj_set genreStats (the genre)
             ((case obj_get genreStats (the genre) of None \<Rightarrow> 0 | Some c \<Rightarrow> c) + 1))"

definition genreStats :: "order_incl list \<Rightarrow> js_object" where
  "genreStats transactions =
     foldl (\<lambda>stats t. foldl count_genre stats (uniqueGenres t)) [] transactions"


record genre_count =
  gc_genre :: string
  gc_count :: nat

record stats =
  totalTransactions :: nat
  avgTransactionValue :: jsnum
  topGenre :: "genre_count option"
  leastGenre :: "genre_count option"



section \<open>Notions used to state the properties\<close>

text \<open>
  The row that \<^verbatim>\<open>createBook\<close> writes when it restores the soft-deleted book \<open>b\<close>: the
  \<^verbatim>\<open>data\<close> of its \<^verbatim>\<open>prisma.books.update\<close> applied to \<open>b\<close>, with year \<open>y\<close>, price \<open>p\<close> and
  stock \<open>q\<close>.
\<close>

definition restored_book ::
  "time \<Rightarrow> book_request \<Rightarrow> int \<Rightarrow> rat \<Rightarrow> int \<Rightarrow> book_row \<Rightarrow> book_row" where
  "restored_book now req y p q b =
     b\<lparr>b_writer := the (br_writer req), b_publisher := the (br_publisher req),
       b_publication_year := y,
       b_description := (if falsy (br_description req) then None else br_description req),
       b_price := p, b_stock_quantity := q, b_genre_id := the (br_genre_id req),
       b_updated_at := now, b_deleted_at := None\<rparr>"





text \<open>
  The invariant of the books table that the validation protects.
\<close>

definition books_valid :: "store \<Rightarrow> bool" where
  "books_valid s = (\<forall>b \<in> set (books s). 0 \<le> b_price b \<and> 0 \<le> b_stock_quantity b)"

section \<open>Example stores and requests\<close>

text \<open>
  A store whose only genre and only book are soft-deleted, with a create request for each
  of their keys; and a shop with three active genres, two active books of the genre Poetry,
  a soft-deleted book of the genre History, no book of the genre Drama, one user and one
  order of the book Odes.
\<close>

definition ex_genre :: genre_row where
  "ex_genre = \<lparr>g_id = ''g1'', g_name = ''Fiction'', g_created_at = 1, g_updated_at = 4,
               g_deleted_at = Some 4\<rparr>"

definition ex_book :: book_row where
  "ex_book = \<lparr>b_id = ''b1'', b_title = ''Dune'', b_writer = ''Frank Herbert'',
              b_publisher = ''Chilton'', b_publication_year = 1965, b_description = None,
              b_price = 10, b_stock_quantity = 3, b_genre_id = ''g1'', b_created_at = 2,
              b_updated_at = 3, b_deleted_at = Some 3\<rparr>"

definition ex_store :: store where
  "ex_store = \<lparr>users = [], genres = [ex_genre], books = [ex_book], orders = [],
               order_items = []\<rparr>"

definition ex_genre_request :: genre_request where
  "ex_genre_request =
     \<lparr>gr_authorization = Some ''Bearer t'', gr_genre_id = ''g1'', gr_name = Some ''Fiction''\<rparr>"

definition ex_book_request :: book_request where
  "ex_book_request =
     \<lparr>br_authorization = Some ''Bearer t'', br_book_id = ''b1'', br_title = Some ''Dune'',
      br_writer = Some ''F. Herbert'', br_publisher = Some ''Ace'', br_description = None,
      br_publication_year = Some (Num 1990), br_price = Some (Num 12),
      br_stock_quantity = Some (Num 7), br_genre_id = Some ''g1''\<rparr>"

definition ex_store_no_books :: store where
  "ex_store_no_books = \<lparr>users = [], genres = [ex_genre], books = [], orders = [],
               order_items = []\<rparr>"

definition shop_poetry :: genre_row where
  "shop_poetry = \<lparr>g_id = ''g2'', g_name = ''Poetry'', g_created_at = 1, g_updated_at = 1,
                  g_deleted_at = None\<rparr>"

definition shop_history :: genre_row where
  "shop_history = \<lparr>g_id = ''g3'', g_name = ''History'', g_created_at = 1, g_updated_at = 1,
                   g_deleted_at = None\<rparr>"

definition shop_drama :: genre_row where
  "shop_drama = \<lparr>g_id = ''g4'', g_name = ''Drama'', g_created_at = 1, g_updated_at = 1,
                 g_deleted_at = None\<rparr>"

definition shop_odes :: book_row where
  "shop_odes = \<lparr>b_id = ''b2'', b_title = ''Odes'', b_writer = ''Keats'',
                b_publisher = ''Taylor'', b_publication_year = 1819, b_description = None,
                b_price = 10, b_stock_quantity = 5, b_genre_id = ''g2'', b_created_at = 2,
                b_updated_at = 2, b_deleted_at = None\<rparr>"

definition shop_sonnets :: book_row where
  "shop_sonnets = \<lparr>b_id = ''b3'', b_title = ''Sonnets'', b_writer = ''Shakespeare'',
                   b_publisher = ''Thorpe'', b_publication_year = 1609,
                   b_description = Some ''154 poems'', b_price = 20, b_stock_quantity = 1,
                   b_genre_id = ''g2'', b_created_at = 2, b_updated_at = 2,
                   b_deleted_at = None\<rparr>"

definition shop_chronicle :: book_row where
  "shop_chronicle = \<lparr>b_id = ''b5'', b_title = ''Chronicle'', b_writer = ''Bede'',
                     b_publisher = ''Jarrow'', b_publication_year = 731,
                     b_description = None, b_price = 5, b_stock_quantity = 0,
                     b_genre_id = ''g3'', b_created_at = 2, b_updated_at = 5,
                     b_deleted_at = Some 5\<rparr>"

definition shop_user :: user_row where
  "shop_user = \<lparr>u_id = ''u1'', u_username = Some ''ann'', u_password = ''hash'',
                u_email = ''ann@example.org'', u_created_at = 1, u_updated_at = 1\<rparr>"

definition shop :: store where
  "shop =
     \<lparr>users = [shop_user],
      genres = [shop_poetry, shop_history, shop_drama],
      books = [shop_odes, shop_sonnets, shop_chronicle],
      orders = [\<lparr>o_id = ''o1'', o_user_id = ''u1'', o_created_at = 3, o_updated_at = 3\<rparr>],
      order_items = [\<lparr>oi_id = ''i1'', oi_quantity = 2, oi_order_id = ''o1'',
                      oi_book_id = ''b2'', oi_created_at = 3, oi_updated_at = 3\<rparr>]\<rparr>"

text \<open>Requests with an authorization header that address a row and carry an empty body.\<close>

definition book_id_request :: "string \<Rightarrow> book_request" where
  "book_id_request i =
     \<lparr>br_authorization = Some ''Bearer t'', br_book_id = i, br_title = None,
      br_writer = None, br_publisher = None, br_description = None,
      br_publication_year = None, br_price = None, br_stock_quantity = None,
      br_genre_id = None\<rparr>"

definition genre_id_request :: "string \<Rightarrow> genre_request" where
  "genre_id_request i = \<lparr>gr_authorization = Some ''Bearer t'', gr_genre_id = i, gr_name = None\<rparr>"

text \<open>
  An order request of the shop's user for one copy of a book that does not exist.
\<close>

definition missing_book_request :: tx_request where
  "missing_book_request =
     \<lparr>tr_authorization = Some ''Bearer t'', tr_user_id = Some ''u1'',
      tr_items = Some [\<lparr>ti_book_id = Some ''nope'', ti_quantity = Some (Num 1)\<rparr>]\<rparr>"

text \<open>The identifiers the store gives to the items of a new order.\<close>

definition item_ids :: "nat \<Rightarrow> string" where
  "item_ids k = ''item-'' @ replicate k CHR ''x''"







section \<open>Properties\<close>

subsection \<open>Unique keys\<close>

lemma find_unique_key:
  assumes "distinct (map f xs)" "x \<in> set xs"
  shows "find (\<lambda>y. f y = f x) xs = Some x"
  using assms by (induction xs) (auto simp: rev_image_eqI)

lemma unique_key_eq:
  assumes "distinct (map f xs)" "x \<in> set xs" "y \<in> set xs" "f x = f y"
  shows "x = y"
  using assms by (meson distinct_map inj_onD)

lemma map_replace_key:
  "f x' = k \<Longrightarrow> map f (map (\<lambda>x. if f x = k then x' else x) xs) = map f xs"
  by (induction xs) auto

lemma find_replace_key:
  "f x' = k \<Longrightarrow> k \<in> f ` set xs \<Longrightarrow>
   find (\<lambda>x. f x = k) (map (\<lambda>x. if f x = k then x' else x) xs) = Some x'"
  by (induction xs) auto

subsection \<open>What a write stores\<close>

lemma prisma_genres_findUnique_id_None:
  "(prisma_genres_findUnique_id i s = None) = (i \<notin> g_id ` set (genres s))"
  by (auto simp: prisma_genres_findUnique_id_def find_None_iff)

lemma prisma_genres_update_ok:
  assumes "distinct (map g_id (genres s))" "g \<in> set (genres s)" "gd_name d = None"
  shows "prisma_genres_update (g_id g) d s =
     Inr (apply_genre_data d g,
          s\<lparr>genres := map (\<lambda>x. if g_id x = g_id g then apply_genre_data d g else x) (genres s)\<rparr>)"
proof -
  have f: "find (\<lambda>x. g_id x = g_id g) (genres s) = Some g"
    using find_unique_key[OF assms(1) assms(2)] by simp
  then show ?thesis
    using assms(3)
    by (simp add: prisma_genres_update_def prisma_genres_findUnique_id_def Let_def provided_def)
qed

lemma prisma_books_update_ok:
  assumes "distinct (map b_id (books s))" "b \<in> set (books s)" "apply_book_data d b = Some b'"
    "\<not> provided (bd_title d) (\<lambda>t. \<exists>x \<in> set (books s). b_id x \<noteq> b_id b \<and> b_title x = t)"
    "\<not> provided (bd_genre_id d) (\<lambda>g. g \<notin> g_id ` set (genres s))"
  shows "prisma_books_update (b_id b) d s =
     Inr (b', s\<lparr>books := map (\<lambda>x. if b_id x = b_id b then b' else x) (books s)\<rparr>)"
proof -
  have f: "prisma_books_findUnique (b_id b) s = Some b"
    using find_unique_key[OF assms(1) assms(2)] by (simp add: prisma_books_findUnique_def)
  show ?thesis
    using f assms(3,4,5)
    by (simp add: prisma_books_update_def prisma_genres_findUnique_id_None)
qed

lemma int_column_of_int:
  "- 2147483648 \<le> y \<Longrightarrow> y \<le> 2147483647 \<Longrightarrow> int_column (Num (of_int y)) = Some y"
  by (simp add: int_column_def)

lemma int_column_Some: "int_column v = Some q \<Longrightarrow> v = Num (of_int q)"
  by (auto simp: int_column_def split: jsnum.splits if_splits)

lemma float_column_Some: "float_column v = Some p \<Longrightarrow> v = Num p"
  by (auto simp: float_column_def split: jsnum.splits)

lemma apply_book_data_fields:
  assumes "apply_book_data d b = Some b'"
  shows "b_id b' = b_id b"
    and "b_title b' = keep (bd_title d) (b_title b)"
    and "b_writer b' = keep (bd_writer d) (b_writer b)"
    and "b_publisher b' = keep (bd_publisher d) (b_publisher b)"
    and "b_description b' = keep (bd_description d) (b_description b)"
    and "b_genre_id b' = keep (bd_genre_id d) (b_genre_id b)"
    and "b_created_at b' = keep (bd_created_at d) (b_created_at b)"
    and "b_updated_at b' = keep (bd_updated_at d) (b_updated_at b)"
    and "b_deleted_at b' = keep (bd_deleted_at d) (b_deleted_at b)"
    and "case bd_publication_year d of None \<Rightarrow> b_publication_year b' = b_publication_year b
         | Some v \<Rightarrow> v = Num (of_int (b_publication_year b'))"
    and "case bd_price d of None \<Rightarrow> b_price b' = b_price b | Some v \<Rightarrow> v = Num (b_price b')"
    and "case bd_stock_quantity d of None \<Rightarrow> b_stock_quantity b' = b_stock_quantity b
         | Some v \<Rightarrow> v = Num (of_int (b_stock_quantity b'))"
  using assms
  by (auto simp: apply_book_data_def col_def
      split: option.splits dest: int_column_Some float_column_Some)

lemma prisma_books_update_result:
  assumes "prisma_books_update i d s = Inr (b', s')"
  shows "\<exists>b \<in> set (books s). b_id b = i \<and> apply_book_data d b = Some b'
           \<and> s' = s\<lparr>books := map (\<lambda>x. if b_id x = i then b' else x) (books s)\<rparr>"
proof -
  obtain b where b: "prisma_books_findUnique i s = Some b"
    using assms by (auto simp: prisma_books_update_def split: option.splits)
  then have "b \<in> set (books s)" "b_id b = i"
    by (auto simp: prisma_books_findUnique_def find_Some_iff)
  then show ?thesis
    using assms b
    by (auto simp: prisma_books_update_def split: option.splits if_splits)
qed

lemma prisma_books_create_result:
  assumes "prisma_books_create new_id d s = Inr (b', s')"
  shows "s' = s\<lparr>books := books s @ [b']\<rparr> \<and> b_id b' = new_id
    \<and> (\<forall>v. bd_price d = Some v \<longrightarrow> v = Num (b_price b'))
    \<and> (\<forall>v. bd_stock_quantity d = Some v \<longrightarrow> v = Num (of_int (b_stock_quantity b')))
    \<and> bd_price d \<noteq> None \<and> bd_stock_quantity d \<noteq> None"
proof -
  let ?blank = "\<lparr>b_id = new_id, b_title = [], b_writer = [], b_publisher = [],
                 b_publication_year = 0, b_description = None, b_price = 0,
                 b_stock_quantity = 0, b_genre_id = [], b_created_at = 0, b_updated_at = 0,
                 b_deleted_at = None\<rparr>"
  have a: "apply_book_data d ?blank = Some b'" and s: "s' = s\<lparr>books := books s @ [b']\<rparr>"
    and n: "bd_price d \<noteq> None" "bd_stock_quantity d \<noteq> None"
    using assms by (auto simp: prisma_books_create_def split: option.splits if_splits)
  show ?thesis
    using apply_book_data_fields(1,11,12)[OF a] s n by (auto split: option.splits)
qed

subsection \<open>Creating over a soft-deleted row\<close>

lemma createGenre_restore:
  assumes auth: "gr_authorization req \<noteq> None"
    and name: "gr_name req = Some n" "n \<noteq> []"
    and uniq: "distinct (map g_id (genres s))" "distinct (map g_name (genres s))"
    and row: "g \<in> set (genres s)" "g_name g = n" "g_deleted_at g \<noteq> None"
  shows "createGenre now new_id req s =
     (reply 200 True ''Genre berhasil dibuat. (restore dari soft delete).''
        (Some (g\<lparr>g_updated_at := now, g_deleted_at := None\<rparr>)),
      s\<lparr>genres := map (\<lambda>x. if g_id x = g_id g then g\<lparr>g_updated_at := now, g_deleted_at := None\<rparr>
                             else x) (genres s)\<rparr>)"
proof -
  let ?d = "no_genre_data\<lparr>gd_deleted_at := Some None, gd_updated_at := Some now\<rparr>"
  have f: "prisma_genres_findUnique_name n s = Some g"
    using find_unique_key[OF uniq(2) row(1)] row(2)
    by (simp add: prisma_genres_findUnique_name_def)
  have a: "apply_genre_data ?d g = g\<lparr>g_updated_at := now, g_deleted_at := None\<rparr>"
    by (simp add: apply_genre_data_def no_genre_data_def keep_def)
  have u: "prisma_genres_update (g_id g) ?d s =
     Inr (g\<lparr>g_updated_at := now, g_deleted_at := None\<rparr>,
          s\<lparr>genres := map (\<lambda>x. if g_id x = g_id g then g\<lparr>g_updated_at := now, g_deleted_at := None\<rparr>
                             else x) (genres s)\<rparr>)"
    using prisma_genres_update_ok[OF uniq(1) row(1), of ?d] a by (simp add: no_genre_data_def)
  show ?thesis
    using auth name f row(3) u by (auto simp: createGenre_def falsy_def Let_def)
qed

lemma createBook_restore:
  assumes auth: "br_authorization req \<noteq> None"
    and strs: "br_title req = Some t" "t \<noteq> []" "\<not> falsy (br_writer req)"
      "\<not> falsy (br_publisher req)" "br_genre_id req = Some gid" "gid \<noteq> []"
    and num: "br_publication_year req = Some (Num (of_int y))" "0 \<le> y" "y \<le> thisYear + 1"
      "y \<le> 2147483647"
      "br_price req = Some (Num p)" "0 \<le> p"
      "br_stock_quantity req = Some (Num (of_int q))" "0 \<le> q" "q \<le> 2147483647"
    and genre: "gid \<in> g_id ` set (genres s)"
    and uniq: "distinct (map b_id (books s))" "distinct (map b_title (books s))"
    and row: "b \<in> set (books s)" "b_title b = t" "b_deleted_at b \<noteq> None"
  shows "createBook now thisYear new_id req s =
     (reply 200 True ''Buku berhasil ditambahkan kembali.'' (Some (restored_book now req y p q b)),
      s\<lparr>books := map (\<lambda>x. if b_id x = b_id b then restored_book now req y p q b else x)
                     (books s)\<rparr>)"
proof -
  let ?d = "no_book_data
             \<lparr>bd_deleted_at := Some None, bd_writer := br_writer req,
              bd_publisher := br_publisher req,
              bd_description := Some (if falsy (br_description req) then None
                                      else br_description req),
              bd_publication_year := Some (Num (of_int y)), bd_price := Some (Num p),
              bd_stock_quantity := Some (Num (of_int q)), bd_genre_id := Some gid,
              bd_updated_at := Some now\<rparr>"
  let ?b' = "restored_book now req y p q b"
  obtain w pb where wp: "br_writer req = Some w" "br_publisher req = Some pb"
    using strs(3,4) by (auto simp: falsy_def split: option.splits)
  have noact: "prisma_books_findFirst (\<lambda>x. b_title x = t \<and> b_deleted_at x = None) s = None"
    using unique_key_eq[OF uniq(2) _ row(1)] row(2,3)
    by (auto simp: prisma_books_findFirst_def find_None_iff)
  have "find (\<lambda>x. b_title x = b_title b) (books s) = Some b"
    by (rule find_unique_key[OF uniq(2) row(1)])
  then have del: "prisma_books_findFirst (\<lambda>x. b_title x = t \<and> b_deleted_at x \<noteq> None) s = Some b"
    using row(2,3) unique_key_eq[OF uniq(2) _ row(1)]
    by (auto simp: prisma_books_findFirst_def find_Some_iff)
  have a: "apply_book_data ?d b = Some ?b'"
    using num(2,4,8,9) wp strs(5)
    by (simp add: apply_book_data_def no_book_data_def col_def keep_def float_column_def
        int_column_of_int restored_book_def)
  have u: "prisma_books_update (b_id b) ?d s =
     Inr (?b', s\<lparr>books := map (\<lambda>x. if b_id x = b_id b then ?b' else x) (books s)\<rparr>)"
    using genre
    by (intro prisma_books_update_ok[OF uniq(1) row(1) a])
      (simp_all add: provided_def no_book_data_def)
  have checks: "\<not> js_lt (Num p) (Num 0)" "\<not> js_lt (Num (of_int q)) (Num 0)"
    "isInteger (Num (of_int q))" "\<not> js_lt (Num (of_int y)) (Num 0)"
    "\<not> js_gt (Num (of_int y)) (Num (of_int (thisYear + 1)))"
    using num by (simp_all add: isInteger_def js_gt_def)
  have g: "prisma_genres_findUnique_id gid s \<noteq> None"
    using genre by (simp add: prisma_genres_findUnique_id_None)
  show ?thesis
    unfolding createBook_def
    using auth strs(1,2,3,4,5,6) num(1,5,7) checks g noact del u
    by (auto simp: falsy_def isNaN_def Let_def)
qed

lemma createGenre_on_deleted_name:
  assumes "distinct (map g_id (genres s))" "distinct (map g_name (genres s))"
    "g \<in> set (genres s)" "g_name g = n" "g_deleted_at g \<noteq> None" "gr_name req = Some n"
  shows "createGenre now new_id req s =
     (if gr_authorization req = None then (reply 401 False ''Token tidak ditemukan.'' None, s)
      else if n = [] then (reply 400 False ''Nama genre wajib diisi.'' None, s)
      else (reply 200 True ''Genre berhasil dibuat. (restore dari soft delete).''
              (Some (g\<lparr>g_updated_at := now, g_deleted_at := None\<rparr>)),
            s\<lparr>genres := map (\<lambda>x. if g_id x = g_id g
                                  then g\<lparr>g_updated_at := now, g_deleted_at := None\<rparr>
                                  else x) (genres s)\<rparr>))"
proof (cases "gr_authorization req = None \<or> n = []")
  case True
  then show ?thesis using assms(6) by (auto simp: createGenre_def falsy_def)
next
  case False
  then show ?thesis
    using createGenre_restore[OF _ assms(6) _ assms(1,2,3,4,5), of now new_id] by auto
qed

lemma createBook_on_deleted_title:
  assumes uniq: "distinct (map b_id (books s))" "distinct (map b_title (books s))"
    and row: "b \<in> set (books s)" "b_title b = t" "b_deleted_at b \<noteq> None"
    and title: "br_title req = Some t"
    and c: "createBook now thisYear new_id req s = (r, s')"
  shows "(s' = s \<and> status r \<noteq> 200 \<and> status r \<noteq> 201)
     \<or> (status r = 200
        \<and> (\<exists>b'. data r = Some b' \<and> b_id b' = b_id b \<and> b_title b' = b_title b
              \<and> b_created_at b' = b_created_at b \<and> b_deleted_at b' = None
              \<and> b_updated_at b' = now
              \<and> s' = s\<lparr>books := map (\<lambda>x. if b_id x = b_id b then b' else x) (books s)\<rparr>))"
proof -
  let ?d = "no_book_data
                           \<lparr>bd_deleted_at := Some None,
                            bd_writer := br_writer req,
                            bd_publisher := br_publisher req,
                            bd_description :=
                              Some (if falsy (br_description req) then None
                                    else br_description req),
                            bd_publication_year := Some (the (br_publication_year req)),
                            bd_price := Some (the (br_price req)),
                            bd_stock_quantity := Some (the (br_stock_quantity req)),
                            bd_genre_id := Some (the (br_genre_id req)),
                            bd_updated_at := Some now\<rparr>"
  have noact: "prisma_books_findFirst (\<lambda>x. b_title x = t \<and> b_deleted_at x = None) s = None"
    using unique_key_eq[OF uniq(2) _ row(1)] row(2,3)
    by (auto simp: prisma_books_findFirst_def find_None_iff)
  have "find (\<lambda>x. b_title x = b_title b) (books s) = Some b"
    by (rule find_unique_key[OF uniq(2) row(1)])
  then have del: "prisma_books_findFirst (\<lambda>x. b_title x = t \<and> b_deleted_at x \<noteq> None) s = Some b"
    using row(2,3) unique_key_eq[OF uniq(2) _ row(1)]
    by (auto simp: prisma_books_findFirst_def find_Some_iff)
  show ?thesis
  proof (cases "prisma_books_update (b_id b) ?d s")
    case (Inl e)
    then show ?thesis
      using c title noact del
      by (auto simp: createBook_def Let_def reply_def split: if_splits prisma_error.splits)
  next
    case (Inr p)
    obtain b' s1 where p: "p = (b', s1)" by (cases p)
    from prisma_books_update_result[OF Inr[unfolded p]] obtain b0 where
      b0: "b0 \<in> set (books s)" "b_id b0 = b_id b" "apply_book_data ?d b0 = Some b'"
      "s1 = s\<lparr>books := map (\<lambda>x. if b_id x = b_id b then b' else x) (books s)\<rparr>"
      by blast
    have "b0 = b" using unique_key_eq[OF uniq(1) b0(1) row(1) b0(2)] .
    then have a: "apply_book_data ?d b = Some b'" using b0(3) by simp
    have f: "b_id b' = b_id b" "b_title b' = b_title b" "b_created_at b' = b_created_at b"
      "b_deleted_at b' = None" "b_updated_at b' = now"
      using apply_book_data_fields(1,2,7,8,9)[OF a] by (simp_all add: no_book_data_def keep_def)
    show ?thesis
      using c title noact del Inr p b0(4) f
      by (auto simp: createBook_def Let_def reply_def split: if_splits)
  qed
qed

text \<open>
  \<^bold>\<open>C1.\<close> A create request whose unique key (genre name, book title) matches a soft-deleted
  row restores that row in place. On a store that satisfies the primary keys and unique
  indexes of the schema, an authenticated request that passes the handler's validation (a
  non-empty name; for a book: mandatory fields present, price and stock not negative, stock
  and year integers, year between 0 and next year, the genre exists) is answered 200, the
  row in the response has the identifier of the deleted row, the table holds the same
  identifiers as before (no new row), and the row now has \<open>deleted_at\<close> cleared and
  \<open>updated_at\<close> set to the current time. Whatever the rest of the request, it is never
  answered 201 and adds no row: either it is answered 200 and the row is restored in place,
  or the store is unchanged.
\<close>

theorem create_restores_soft_deleted_row:
  "(gr_authorization greq \<noteq> None \<and> gr_name greq = Some n \<and> n \<noteq> []
    \<and> distinct (map g_id (genres s)) \<and> distinct (map g_name (genres s))
    \<and> g \<in> set (genres s) \<and> g_name g = n \<and> g_deleted_at g \<noteq> None
    \<longrightarrow> (case createGenre now new_id greq s of
          (r, s') \<Rightarrow>
            status r = 200 \<and> data r = Some (g\<lparr>g_updated_at := now, g_deleted_at := None\<rparr>)
            \<and> map g_id (genres s') = map g_id (genres s)
            \<and> find (\<lambda>x. g_id x = g_id g) (genres s')
                = Some (g\<lparr>g_updated_at := now, g_deleted_at := None\<rparr>)))
   \<and> (br_authorization breq \<noteq> None \<and> br_title breq = Some t \<and> t \<noteq> []
      \<and> \<not> falsy (br_writer breq) \<and> \<not> falsy (br_publisher breq)
      \<and> br_genre_id breq = Some gid \<and> gid \<noteq> [] \<and> gid \<in> g_id ` set (genres s)
      \<and> br_publication_year breq = Some (Num (of_int y)) \<and> 0 \<le> y \<and> y \<le> thisYear + 1
      \<and> y \<le> 2147483647
      \<and> br_price breq = Some (Num p) \<and> 0 \<le> p
      \<and> br_stock_quantity breq = Some (Num (of_int q)) \<and> 0 \<le> q \<and> q \<le> 2147483647
      \<and> distinct (map b_id (books s)) \<and> distinct (map b_title (books s))
      \<and> b \<in> set (books s) \<and> b_title b = t \<and> b_deleted_at b \<noteq> None
      \<longrightarrow> (case createBook now thisYear new_id breq s of
            (r, s') \<Rightarrow>
              status r = 200 \<and> map_option b_id (data r) = Some (b_id b)
              \<and> map b_id (books s') = map b_id (books s)
              \<and> (\<exists>b'. find (\<lambda>x. b_id x = b_id b) (books s') = Some b' \<and> data r = Some b'
                    \<and> b_title b' = b_title b \<and> b_created_at b' = b_created_at b
                    \<and> b_deleted_at b' = None \<and> b_updated_at b' = now
                    \<and> b' = restored_book now breq y p q b)))
   \<and> (gr_name greq = Some n
      \<and> distinct (map g_id (genres s)) \<and> distinct (map g_name (genres s))
      \<and> g \<in> set (genres s) \<and> g_name g = n \<and> g_deleted_at g \<noteq> None
      \<longrightarrow> (case createGenre now new_id greq s of
            (r, s') \<Rightarrow>
              status r \<noteq> 201 \<and> map g_id (genres s') = map g_id (genres s)
              \<and> (if status r = 200
                 then find (\<lambda>x. g_id x = g_id g) (genres s')
                        = Some (g\<lparr>g_updated_at := now, g_deleted_at := None\<rparr>)
                 else s' = s)))
   \<and> (br_title breq = Some t
      \<and> distinct (map b_id (books s)) \<and> distinct (map b_title (books s))
      \<and> b \<in> set (books s) \<and> b_title b = t \<and> b_deleted_at b \<noteq> None
      \<longrightarrow> (case createBook now thisYear new_id breq s of
            (r, s') \<Rightarrow>
              status r \<noteq> 201 \<and> map b_id (books s') = map b_id (books s)
              \<and> (if status r = 200
                 then \<exists>b'. find (\<lambda>x. b_id x = b_id b) (books s') = Some b'
                        \<and> data r = Some b' \<and> b_id b' = b_id b \<and> b_title b' = b_title b
                        \<and> b_deleted_at b' = None \<and> b_updated_at b' = now
                 else s' = s)))"
proof (intro conjI impI)
  assume h: "gr_authorization greq \<noteq> None \<and> gr_name greq = Some n \<and> n \<noteq> []
    \<and> distinct (map g_id (genres s)) \<and> distinct (map g_name (genres s))
    \<and> g \<in> set (genres s) \<and> g_name g = n \<and> g_deleted_at g \<noteq> None"
  then have "createGenre now new_id greq s =
     (reply 200 True ''Genre berhasil dibuat. (restore dari soft delete).''
        (Some (g\<lparr>g_updated_at := now, g_deleted_at := None\<rparr>)),
      s\<lparr>genres := map (\<lambda>x. if g_id x = g_id g then g\<lparr>g_updated_at := now, g_deleted_at := None\<rparr>
                             else x) (genres s)\<rparr>)"
    by (intro createGenre_restore) simp_all
  moreover have "g_id g \<in> g_id ` set (genres s)" using h by simp
  ultimately show "case createGenre now new_id greq s of
          (r, s') \<Rightarrow>
            status r = 200 \<and> data r = Some (g\<lparr>g_updated_at := now, g_deleted_at := None\<rparr>)
            \<and> map g_id (genres s') = map g_id (genres s)
            \<and> find (\<lambda>x. g_id x = g_id g) (genres s')
                = Some (g\<lparr>g_updated_at := now, g_deleted_at := None\<rparr>)"
    by (simp add: reply_def map_replace_key find_replace_key)
next
  assume h: "br_authorization breq \<noteq> None \<and> br_title breq = Some t \<and> t \<noteq> []
      \<and> \<not> falsy (br_writer breq) \<and> \<not> falsy (br_publisher breq)
      \<and> br_genre_id breq = Some gid \<and> gid \<noteq> [] \<and> gid \<in> g_id ` set (genres s)
      \<and> br_publication_year breq = Some (Num (of_int y)) \<and> 0 \<le> y \<and> y \<le> thisYear + 1
      \<and> y \<le> 2147483647
      \<and> br_price breq = Some (Num p) \<and> 0 \<le> p
      \<and> br_stock_quantity breq = Some (Num (of_int q)) \<and> 0 \<le> q \<and> q \<le> 2147483647
      \<and> distinct (map b_id (books s)) \<and> distinct (map b_title (books s))
      \<and> b \<in> set (books s) \<and> b_title b = t \<and> b_deleted_at b \<noteq> None"
  let ?b' = "restored_book now breq y p q b"
  have "createBook now thisYear new_id breq s =
     (reply 200 True ''Buku berhasil ditambahkan kembali.'' (Some ?b'),
      s\<lparr>books := map (\<lambda>x. if b_id x = b_id b then ?b' else x) (books s)\<rparr>)"
    using h by (intro createBook_restore[where t = t and gid = gid]) simp_all
  moreover have "b_id b \<in> b_id ` set (books s)" using h by simp
  moreover have "b_id ?b' = b_id b" "b_title ?b' = b_title b" "b_deleted_at ?b' = None"
    "b_updated_at ?b' = now" "b_created_at ?b' = b_created_at b"
    by (simp_all add: restored_book_def)
  ultimately show "case createBook now thisYear new_id breq s of
            (r, s') \<Rightarrow>
              status r = 200 \<and> map_option b_id (data r) = Some (b_id b)
              \<and> map b_id (books s') = map b_id (books s)
              \<and> (\<exists>b'. find (\<lambda>x. b_id x = b_id b) (books s') = Some b' \<and> data r = Some b'
                    \<and> b_title b' = b_title b \<and> b_created_at b' = b_created_at b
                    \<and> b_deleted_at b' = None \<and> b_updated_at b' = now
                    \<and> b' = restored_book now breq y p q b)"
    by (simp add: reply_def map_replace_key find_replace_key)
next
  assume h: "gr_name greq = Some n
      \<and> distinct (map g_id (genres s)) \<and> distinct (map g_name (genres s))
      \<and> g \<in> set (genres s) \<and> g_name g = n \<and> g_deleted_at g \<noteq> None"
  then have i: "g_id g \<in> g_id ` set (genres s)" by simp
  have "createGenre now new_id greq s =
     (if gr_authorization greq = None then (reply 401 False ''Token tidak ditemukan.'' None, s)
      else if n = [] then (reply 400 False ''Nama genre wajib diisi.'' None, s)
      else (reply 200 True ''Genre berhasil dibuat. (restore dari soft delete).''
              (Some (g\<lparr>g_updated_at := now, g_deleted_at := None\<rparr>)),
            s\<lparr>genres := map (\<lambda>x. if g_id x = g_id g
                                  then g\<lparr>g_updated_at := now, g_deleted_at := None\<rparr>
                                  else x) (genres s)\<rparr>))"
    using h by (intro createGenre_on_deleted_name) simp_all
  then show "case createGenre now new_id greq s of
            (r, s') \<Rightarrow>
              status r \<noteq> 201 \<and> map g_id (genres s') = map g_id (genres s)
              \<and> (if status r = 200
                 then find (\<lambda>x. g_id x = g_id g) (genres s')
                        = Some (g\<lparr>g_updated_at := now, g_deleted_at := None\<rparr>)
                 else s' = s)"
    using i by (simp add: reply_def map_replace_key find_replace_key)
next
  assume h: "br_title breq = Some t
      \<and> distinct (map b_id (books s)) \<and> distinct (map b_title (books s))
      \<and> b \<in> set (books s) \<and> b_title b = t \<and> b_deleted_at b \<noteq> None"
  then have i: "b_id b \<in> b_id ` set (books s)" by simp
  obtain r s' where c: "createBook now thisYear new_id breq s = (r, s')"
    by (cases "createBook now thisYear new_id breq s")
  have "(s' = s \<and> status r \<noteq> 200 \<and> status r \<noteq> 201)
     \<or> (status r = 200
        \<and> (\<exists>b'. data r = Some b' \<and> b_id b' = b_id b \<and> b_title b' = b_title b
              \<and> b_created_at b' = b_created_at b \<and> b_deleted_at b' = None
              \<and> b_updated_at b' = now
              \<and> s' = s\<lparr>books := map (\<lambda>x. if b_id x = b_id b then b' else x) (books s)\<rparr>))"
    using h by (intro createBook_on_deleted_title[OF _ _ _ _ _ _ c, where t = t]) simp_all
  then show "case createBook now thisYear new_id breq s of
            (r, s') \<Rightarrow>
              status r \<noteq> 201 \<and> map b_id (books s') = map b_id (books s)
              \<and> (if status r = 200
                 then \<exists>b'. find (\<lambda>x. b_id x = b_id b) (books s') = Some b'
                        \<and> data r = Some b' \<and> b_id b' = b_id b \<and> b_title b' = b_title b
                        \<and> b_deleted_at b' = None \<and> b_updated_at b' = now
                 else s' = s)"
    using c i by (auto simp: map_replace_key find_replace_key)
qed

theorem create_restores_soft_deleted_row_witness:
  "(case createGenre 9 ''g2'' ex_genre_request ex_store of
      (r, s') \<Rightarrow>
        status r = 200 \<and> data r = Some (ex_genre\<lparr>g_updated_at := 9, g_deleted_at := None\<rparr>)
        \<and> map g_id (genres s') = [''g1'']
        \<and> find (\<lambda>x. g_id x = ''g1'') (genres s')
            = Some (ex_genre\<lparr>g_updated_at := 9, g_deleted_at := None\<rparr>))
   \<and> (case createBook 9 2025 ''g2'' ex_book_request ex_store of
        (r, s') \<Rightarrow>
          status r = 200 \<and> map_option b_id (data r) = Some ''b1''
          \<and> map b_id (books s') = [''b1'']
          \<and> (\<exists>b'. find (\<lambda>x. b_id x = ''b1'') (books s') = Some b' \<and> data r = Some b'
                \<and> b_title b' = ''Dune'' \<and> b_created_at b' = 2
                \<and> b_deleted_at b' = None \<and> b_updated_at b' = 9
                \<and> b' = restored_book 9 ex_book_request 1990 12 7 ex_book))
   \<and> (case createGenre 9 ''g2'' (ex_genre_request\<lparr>gr_authorization := None\<rparr>) ex_store of
        (r, s') \<Rightarrow>
          status r \<noteq> 201 \<and> map g_id (genres s') = [''g1'']
          \<and> (if status r = 200
             then find (\<lambda>x. g_id x = ''g1'') (genres s')
                    = Some (ex_genre\<lparr>g_updated_at := 9, g_deleted_at := None\<rparr>)
             else s' = ex_store))
   \<and> (case createBook 9 2025 ''g2'' (ex_book_request\<lparr>br_price := Some (Num (- 1))\<rparr>) ex_store of
        (r, s') \<Rightarrow>
          status r \<noteq> 201 \<and> map b_id (books s') = [''b1'']
          \<and> (if status r = 200
             then \<exists>b'. find (\<lambda>x. b_id x = ''b1'') (books s') = Some b'
                    \<and> data r = Some b' \<and> b_id b' = ''b1'' \<and> b_title b' = ''Dune''
                    \<and> b_deleted_at b' = None \<and> b_updated_at b' = 9
             else s' = ex_store))"
proof -
  have g: "gr_authorization ex_genre_request \<noteq> None \<and> gr_name ex_genre_request = Some ''Fiction''
    \<and> ''Fiction'' \<noteq> [] \<and> distinct (map g_id (genres ex_store))
    \<and> distinct (map g_name (genres ex_store)) \<and> ex_genre \<in> set (genres ex_store)
    \<and> g_name ex_genre = ''Fiction'' \<and> g_deleted_at ex_genre \<noteq> None"
    by (simp add: ex_genre_request_def ex_store_def ex_genre_def)
  have b: "br_authorization ex_book_request \<noteq> None \<and> br_title ex_book_request = Some ''Dune''
      \<and> ''Dune'' \<noteq> []
      \<and> \<not> falsy (br_writer ex_book_request) \<and> \<not> falsy (br_publisher ex_book_request)
      \<and> br_genre_id ex_book_request = Some ''g1'' \<and> ''g1'' \<noteq> []
      \<and> ''g1'' \<in> g_id ` set (genres ex_store)
      \<and> br_publication_year ex_book_request = Some (Num (of_int 1990)) \<and> (0::int) \<le> 1990
      \<and> (1990::int) \<le> 2025 + 1 \<and> (1990::int) \<le> 2147483647
      \<and> br_price ex_book_request = Some (Num 12) \<and> (0::rat) \<le> 12
      \<and> br_stock_quantity ex_book_request = Some (Num (of_int 7)) \<and> (0::int) \<le> 7
      \<and> (7::int) \<le> 2147483647
      \<and> distinct (map b_id (books ex_store)) \<and> distinct (map b_title (books ex_store))
      \<and> ex_book \<in> set (books ex_store) \<and> b_title ex_book = ''Dune''
      \<and> b_deleted_at ex_book \<noteq> None"
    by (simp add: ex_book_request_def ex_store_def ex_book_def ex_genre_def falsy_def)
  have ids: "g_id ex_genre = ''g1''" "b_id ex_book = ''b1''" "b_title ex_book = ''Dune''"
    "b_created_at ex_book = 2" "map g_id (genres ex_store) = [''g1'']"
    "map b_id (books ex_store) = [''b1'']"
    by (simp_all add: ex_genre_def ex_book_def ex_store_def)
  have g': "gr_name (ex_genre_request\<lparr>gr_authorization := None\<rparr>) = Some ''Fiction''"
    "br_title (ex_book_request\<lparr>br_price := Some (Num (- 1))\<rparr>) = Some ''Dune''"
    by (simp_all add: ex_genre_request_def ex_book_request_def)
  note T = create_restores_soft_deleted_row
  have 1: "case createGenre 9 ''g2'' ex_genre_request ex_store of
      (r, s') \<Rightarrow>
        status r = 200 \<and> data r = Some (ex_genre\<lparr>g_updated_at := 9, g_deleted_at := None\<rparr>)
        \<and> map g_id (genres s') = [''g1'']
        \<and> find (\<lambda>x. g_id x = ''g1'') (genres s')
            = Some (ex_genre\<lparr>g_updated_at := 9, g_deleted_at := None\<rparr>)"
    using T[of ex_genre_request "''Fiction''" ex_store ex_genre 9 "''g2''" ex_book_request
        "''Dune''" "''g1''" 1990 2025 12 7 ex_book, THEN conjunct1] g ids
    by simp
  have 2: "case createBook 9 2025 ''g2'' ex_book_request ex_store of
        (r, s') \<Rightarrow>
          status r = 200 \<and> map_option b_id (data r) = Some ''b1''
          \<and> map b_id (books s') = [''b1'']
          \<and> (\<exists>b'. find (\<lambda>x. b_id x = ''b1'') (books s') = Some b' \<and> data r = Some b'
                \<and> b_title b' = ''Dune'' \<and> b_created_at b' = 2
                \<and> b_deleted_at b' = None \<and> b_updated_at b' = 9
                \<and> b' = restored_book 9 ex_book_request 1990 12 7 ex_book)"
    using T[of ex_genre_request "''Fiction''" ex_store ex_genre 9 "''g2''" ex_book_request
        "''Dune''" "''g1''" 1990 2025 12 7 ex_book, THEN conjunct2, THEN conjunct1] b ids
    by simp
  have 3: "case createGenre 9 ''g2'' (ex_genre_request\<lparr>gr_authorization := None\<rparr>) ex_store of
        (r, s') \<Rightarrow>
          status r \<noteq> 201 \<and> map g_id (genres s') = [''g1'']
          \<and> (if status r = 200
             then find (\<lambda>x. g_id x = ''g1'') (genres s')
                    = Some (ex_genre\<lparr>g_updated_at := 9, g_deleted_at := None\<rparr>)
             else s' = ex_store)"
    using T[of "ex_genre_request\<lparr>gr_authorization := None\<rparr>" "''Fiction''" ex_store ex_genre
        9 "''g2''" "ex_book_request\<lparr>br_price := Some (Num (- 1))\<rparr>" "''Dune''" "''g1''"
        1990 2025 12 7 ex_book, THEN conjunct2, THEN conjunct2, THEN conjunct1] g g' ids
    by (auto simp: case_prod_unfold split: if_splits)
  have 4: "case createBook 9 2025 ''g2'' (ex_book_request\<lparr>br_price := Some (Num (- 1))\<rparr>)
             ex_store of
        (r, s') \<Rightarrow>
          status r \<noteq> 201 \<and> map b_id (books s') = [''b1'']
          \<and> (if status r = 200
             then \<exists>b'. find (\<lambda>x. b_id x = ''b1'') (books s') = Some b'
                    \<and> data r = Some b' \<and> b_id b' = ''b1'' \<and> b_title b' = ''Dune''
                    \<and> b_deleted_at b' = None \<and> b_updated_at b' = 9
             else s' = ex_store)"
    using T[of "ex_genre_request\<lparr>gr_authorization := None\<rparr>" "''Fiction''" ex_store ex_genre
        9 "''g2''" "ex_book_request\<lparr>br_price := Some (Num (- 1))\<rparr>" "''Dune''" "''g1''"
        1990 2025 12 7 ex_book, THEN conjunct2, THEN conjunct2, THEN conjunct2] b g' ids
    by (auto simp: case_prod_unfold split: if_splits)
  show ?thesis using 1 2 3 4 by blast
qed

subsection \<open>Soft-deleted rows\<close>

lemma find_active_by_id:
  assumes "distinct (map b_id (books s))" "b \<in> set (books s)"
  shows "prisma_books_findFirst (\<lambda>x. b_id x = b_id b \<and> b_deleted_at x = None) s =
     (if b_deleted_at b = None then Some b else None)"
proof (cases "b_deleted_at b = None")
  case True
  have "find (\<lambda>x. b_id x = b_id b) (books s) = Some b"
    by (rule find_unique_key[OF assms])
  then show ?thesis
    using True unique_key_eq[OF assms(1) _ assms(2)]
    by (auto simp: prisma_books_findFirst_def find_Some_iff)
next
  case False
  then show ?thesis
    using unique_key_eq[OF assms(1) _ assms(2)]
    by (auto simp: prisma_books_findFirst_def find_None_iff)
qed

lemma soft_deleted_book_inert:
  assumes "br_authorization req \<noteq> None" "distinct (map b_id (books s))" "b \<in> set (books s)"
    "b_id b = br_book_id req" "b_deleted_at b \<noteq> None"
  shows "updateBook now req s = (reply 404 False ''Buku tidak ditemukan.'' None, s)"
    and "deleteBook now req s = (reply 404 False ''Buku tidak ditemukan.'' None, s)"
  using assms find_active_by_id[OF assms(2,3)]
  by (auto simp: updateBook_def deleteBook_def)

text \<open>
  \<^bold>\<open>C2.\<close> Update and Delete on a soft-deleted row answer 404 and change nothing: the book
  handlers do so (\<open>soft_deleted_book_inert\<close>), since they look the row up with
  \<^verbatim>\<open>deleted_at: null\<close>. The genre handlers look the row up by identifier alone. On a store
  whose only genre is soft-deleted (\<open>deleted_at = 4\<close>), \<^verbatim>\<open>updateGenre\<close> answers 200 and renames
  the row, and \<^verbatim>\<open>deleteGenre\<close> answers 200 and overwrites \<open>deleted_at\<close>.
\<close>

theorem soft_deleted_genre_not_inert:
  "updateGenre 9 \<lparr>gr_authorization = Some ''Bearer t'', gr_genre_id = ''g1'',
                  gr_name = Some ''Sci-Fi''\<rparr> ex_store_no_books
     = (reply 200 True ''Genre berhasil diperbarui.''
          (Some (ex_genre\<lparr>g_name := ''Sci-Fi'', g_updated_at := 9\<rparr>)),
        ex_store_no_books\<lparr>genres := [ex_genre\<lparr>g_name := ''Sci-Fi'', g_updated_at := 9\<rparr>]\<rparr>)
   \<and> deleteGenre 9 \<lparr>gr_authorization = Some ''Bearer t'', gr_genre_id = ''g1'',
                    gr_name = None\<rparr> ex_store_no_books
     = (reply 200 True ''Genre berhasil dihapus (soft delete).''
          (Some (ex_genre\<lparr>g_updated_at := 9, g_deleted_at := Some 9\<rparr>)),
        ex_store_no_books\<lparr>genres := [ex_genre\<lparr>g_updated_at := 9, g_deleted_at := Some 9\<rparr>]\<rparr>)
   \<and> g_deleted_at ex_genre = Some 4"
  by (simp add: updateGenre_def deleteGenre_def ex_store_no_books_def ex_genre_def
      prisma_genres_findUnique_id_def prisma_genres_update_def apply_genre_data_def
      no_genre_data_def keep_def provided_def falsy_def reply_def Let_def)

subsection \<open>Deletion and dependents\<close>

lemma deleteBook_active:
  assumes "br_authorization req \<noteq> None" "distinct (map b_id (books s))" "b \<in> set (books s)"
    "b_id b = br_book_id req" "b_deleted_at b = None"
  shows "deleteBook now req s =
     (if \<exists>oi \<in> set (order_items s). oi_book_id oi = b_id b
      then (reply 400 False
              ''Buku tidak bisa dihapus karena sudah memiliki transaksi pembelian.'' None, s)
      else (reply 200 True ''Buku berhasil dihapus.''
              (Some (b\<lparr>b_updated_at := now, b_deleted_at := Some now\<rparr>)),
            s\<lparr>books := map (\<lambda>x. if b_id x = b_id b
                                 then b\<lparr>b_updated_at := now, b_deleted_at := Some now\<rparr>
                                 else x) (books s)\<rparr>))"
proof -
  let ?d = "no_book_data\<lparr>bd_deleted_at := Some (Some now), bd_updated_at := Some now\<rparr>"
  have f: "prisma_books_findFirst (\<lambda>x. b_id x = br_book_id req \<and> b_deleted_at x = None) s = Some b"
    using find_active_by_id[OF assms(2,3)] assms(4,5) by simp
  have a: "apply_book_data ?d b = Some (b\<lparr>b_updated_at := now, b_deleted_at := Some now\<rparr>)"
    by (simp add: apply_book_data_def no_book_data_def col_def keep_def)
  have u: "prisma_books_update (br_book_id req) ?d s =
     Inr (b\<lparr>b_updated_at := now, b_deleted_at := Some now\<rparr>,
          s\<lparr>books := map (\<lambda>x. if b_id x = b_id b
                               then b\<lparr>b_updated_at := now, b_deleted_at := Some now\<rparr>
                               else x) (books s)\<rparr>)"
    using prisma_books_update_ok[OF assms(2,3) a] assms(4)
    by (simp add: provided_def no_book_data_def)
  show ?thesis
    using assms(1) f u
    by (auto simp: deleteBook_def Let_def filter_empty_conv)
qed

lemma deleteGenre_existing:
  assumes "gr_authorization req \<noteq> None" "distinct (map g_id (genres s))" "g \<in> set (genres s)"
    "g_id g = gr_genre_id req"
  shows "deleteGenre now req s =
     (if \<exists>bk \<in> set (books s). b_genre_id bk = g_id g
      then (reply 400 False
              ''Genre tidak dapat dihapus karena masih digunakan oleh buku.'' None, s)
      else (reply 200 True ''Genre berhasil dihapus (soft delete).''
              (Some (g\<lparr>g_updated_at := now, g_deleted_at := Some now\<rparr>)),
            s\<lparr>genres := map (\<lambda>x. if g_id x = g_id g
                                  then g\<lparr>g_updated_at := now, g_deleted_at := Some now\<rparr>
                                  else x) (genres s)\<rparr>))"
proof -
  let ?d = "no_genre_data\<lparr>gd_deleted_at := Some (Some now), gd_updated_at := Some now\<rparr>"
  have f: "prisma_genres_findUnique_id (gr_genre_id req) s = Some g"
    using find_unique_key[OF assms(2,3)] assms(4) by (simp add: prisma_genres_findUnique_id_def)
  have a: "apply_genre_data ?d g = g\<lparr>g_updated_at := now, g_deleted_at := Some now\<rparr>"
    by (simp add: apply_genre_data_def no_genre_data_def keep_def)
  have u: "prisma_genres_update (gr_genre_id req) ?d s =
     Inr (g\<lparr>g_updated_at := now, g_deleted_at := Some now\<rparr>,
          s\<lparr>genres := map (\<lambda>x. if g_id x = g_id g
                                then g\<lparr>g_updated_at := now, g_deleted_at := Some now\<rparr>
                                else x) (genres s)\<rparr>)"
    using prisma_genres_update_ok[OF assms(2,3), of ?d] a assms(4)
    by (simp add: no_genre_data_def)
  have l: "(length (filter (\<lambda>b. b_genre_id b = gr_genre_id req) (books s)) > 0)
      = (\<exists>bk \<in> set (books s). b_genre_id bk = g_id g)"
    using assms(4) by (auto simp: filter_empty_conv)
  show ?thesis
    using assms(1) f u l
    by (auto simp: deleteGenre_def Let_def)
qed

text \<open>
  \<^bold>\<open>C3.\<close> Deleting an active book that some order item references fails with status 400
  (the conflict-class answer of this path) and leaves the store as it was, so the book
  stays active; deleting an active genre that some book references, whatever the state of
  that book, fails the same way. With no dependents the delete answers 200 and the row gets
  \<open>deleted_at\<close> (and \<open>updated_at\<close>) set to the current time, no row being added or removed.
  In the shop, the book Odes has an order item, the genre Poetry has active books, and the
  genre History has only a soft-deleted book: none of them can be deleted; the book Sonnets
  and the genre Drama can.
\<close>

theorem delete_blocked_by_dependents:
  "(br_authorization breq \<noteq> None \<and> distinct (map b_id (books s)) \<and> b \<in> set (books s)
    \<and> b_id b = br_book_id breq \<and> b_deleted_at b = None
    \<longrightarrow> (case deleteBook now breq s of
          (r, s') \<Rightarrow>
            if \<exists>oi \<in> set (order_items s). oi_book_id oi = b_id b
            then status r = 400 \<and> success r = False \<and> s' = s
            else status r = 200
                 \<and> data r = Some (b\<lparr>b_updated_at := now, b_deleted_at := Some now\<rparr>)
                 \<and> find (\<lambda>x. b_id x = b_id b) (books s')
                     = Some (b\<lparr>b_updated_at := now, b_deleted_at := Some now\<rparr>)
                 \<and> map b_id (books s') = map b_id (books s)))
   \<and> (gr_authorization greq \<noteq> None \<and> distinct (map g_id (genres s)) \<and> g \<in> set (genres s)
      \<and> g_id g = gr_genre_id greq \<and> g_deleted_at g = None
      \<longrightarrow> (case deleteGenre now greq s of
            (r, s') \<Rightarrow>
              if \<exists>bk \<in> set (books s). b_genre_id bk = g_id g
              then status r = 400 \<and> success r = False \<and> s' = s
              else status r = 200
                   \<and> data r = Some (g\<lparr>g_updated_at := now, g_deleted_at := Some now\<rparr>)
                   \<and> find (\<lambda>x. g_id x = g_id g) (genres s')
                       = Some (g\<lparr>g_updated_at := now, g_deleted_at := Some now\<rparr>)
                   \<and> map g_id (genres s') = map g_id (genres s)))"
proof (intro conjI impI)
  assume h: "br_authorization breq \<noteq> None \<and> distinct (map b_id (books s)) \<and> b \<in> set (books s)
    \<and> b_id b = br_book_id breq \<and> b_deleted_at b = None"
  then have "b \<in> set (books s)" by simp
  then have "b_id b \<in> b_id ` set (books s)" by (rule imageI)
  then show "case deleteBook now breq s of
          (r, s') \<Rightarrow>
            if \<exists>oi \<in> set (order_items s). oi_book_id oi = b_id b
            then status r = 400 \<and> success r = False \<and> s' = s
            else status r = 200
                 \<and> data r = Some (b\<lparr>b_updated_at := now, b_deleted_at := Some now\<rparr>)
                 \<and> find (\<lambda>x. b_id x = b_id b) (books s')
                     = Some (b\<lparr>b_updated_at := now, b_deleted_at := Some now\<rparr>)
                 \<and> map b_id (books s') = map b_id (books s)"
    using h deleteBook_active[of breq s b now]
    by (simp add: reply_def map_replace_key find_replace_key)
next
  assume h: "gr_authorization greq \<noteq> None \<and> distinct (map g_id (genres s)) \<and> g \<in> set (genres s)
      \<and> g_id g = gr_genre_id greq \<and> g_deleted_at g = None"
  then have "g \<in> set (genres s)" by simp
  then have "g_id g \<in> g_id ` set (genres s)" by (rule imageI)
  then show "case deleteGenre now greq s of
            (r, s') \<Rightarrow>
              if \<exists>bk \<in> set (books s). b_genre_id bk = g_id g
              then status r = 400 \<and> success r = False \<and> s' = s
              else status r = 200
                   \<and> data r = Some (g\<lparr>g_updated_at := now, g_deleted_at := Some now\<rparr>)
                   \<and> find (\<lambda>x. g_id x = g_id g) (genres s')
                       = Some (g\<lparr>g_updated_at := now, g_deleted_at := Some now\<rparr>)
                   \<and> map g_id (genres s') = map g_id (genres s)"
    using h deleteGenre_existing[of greq s g now]
    by (simp add: reply_def map_replace_key find_replace_key)
qed

lemmas shop_defs = shop_def shop_user_def shop_odes_def shop_sonnets_def shop_chronicle_def
  shop_poetry_def shop_history_def shop_drama_def book_id_request_def genre_id_request_def

theorem delete_blocked_by_dependents_witness:
  "status (fst (deleteBook 9 (book_id_request ''b2'') shop)) = 400
   \<and> snd (deleteBook 9 (book_id_request ''b2'') shop) = shop
   \<and> status (fst (deleteGenre 9 (genre_id_request ''g2'') shop)) = 400
   \<and> snd (deleteGenre 9 (genre_id_request ''g2'') shop) = shop
   \<and> status (fst (deleteBook 9 (book_id_request ''b3'') shop)) = 200
   \<and> find (\<lambda>x. b_id x = ''b3'') (books (snd (deleteBook 9 (book_id_request ''b3'') shop)))
       = Some (shop_sonnets\<lparr>b_updated_at := 9, b_deleted_at := Some 9\<rparr>)
   \<and> status (fst (deleteGenre 9 (genre_id_request ''g3'') shop)) = 400
   \<and> snd (deleteGenre 9 (genre_id_request ''g3'') shop) = shop
   \<and> status (fst (deleteGenre 9 (genre_id_request ''g4'') shop)) = 200
   \<and> find (\<lambda>x. g_id x = ''g4'') (genres (snd (deleteGenre 9 (genre_id_request ''g4'') shop)))
       = Some (shop_drama\<lparr>g_updated_at := 9, g_deleted_at := Some 9\<rparr>)"
  using delete_blocked_by_dependents
          [of "book_id_request ''b2''" shop shop_odes 9 "genre_id_request ''g2''" shop_poetry]
        delete_blocked_by_dependents
          [of "book_id_request ''b3''" shop shop_sonnets 9 "genre_id_request ''g3''" shop_history]
        delete_blocked_by_dependents
          [of "book_id_request ''b3''" shop shop_sonnets 9 "genre_id_request ''g4''" shop_drama]
  by (simp add: shop_defs case_prod_unfold)

subsection \<open>Order creation\<close>

lemma prisma_books_findUnique_None:
  "(prisma_books_findUnique i s = None) = (i \<notin> b_id ` set (books s))"
  by (auto simp: prisma_books_findUnique_def find_None_iff)

lemma prisma_users_findUnique_None:
  "(prisma_users_findUnique i s = None) = (i \<notin> u_id ` set (users s))"
  by (auto simp: prisma_users_findUnique_def find_None_iff)

text \<open>
  The handler with the reference checks: a request that passes the shape validation and
  names a user or a book that does not exist is answered 404 before anything is written;
  whatever the request, a dangling reference leaves the store as it was.
\<close>

lemma createTransaction_uuid_checks_first:
  assumes "tr_user_id req = Some u" "tr_items req = Some items"
    "u \<notin> u_id ` set (users s)
     \<or> (\<exists>item \<in> set items. \<exists>i. ti_book_id item = Some i \<and> i \<notin> b_id ` set (books s))"
  shows "snd (createTransaction_uuid now orderId item_id req s) = s"
    and "tr_authorization req \<noteq> None \<Longrightarrow> u \<noteq> [] \<Longrightarrow> items \<noteq> [] \<Longrightarrow>
         \<forall>item \<in> set items. \<not> falsy (ti_book_id item) \<and> ti_quantity item \<noteq> None \<Longrightarrow>
         status (fst (createTransaction_uuid now orderId item_id req s)) = 404"
proof -
  have k: "u \<in> u_id ` set (users s) \<Longrightarrow>
     find (\<lambda>item. prisma_books_findUnique (the (ti_book_id item)) s = None) items \<noteq> None"
    using assms(3) by (auto simp: find_None_iff prisma_books_findUnique_None)
  show "snd (createTransaction_uuid now orderId item_id req s) = s"
    using assms(1,2) k
    by (auto simp: createTransaction_uuid_def Let_def prisma_users_findUnique_None
        split: option.splits)
  show "tr_authorization req \<noteq> None \<Longrightarrow> u \<noteq> [] \<Longrightarrow> items \<noteq> [] \<Longrightarrow>
         \<forall>item \<in> set items. \<not> falsy (ti_book_id item) \<and> ti_quantity item \<noteq> None \<Longrightarrow>
         status (fst (createTransaction_uuid now orderId item_id req s)) = 404"
    using assms(1,2) k
    by (auto simp: createTransaction_uuid_def Let_def prisma_users_findUnique_None falsy_def
        reply_def split: option.splits)
qed

text \<open>
  \<^bold>\<open>C4.\<close> An order request whose item names a book that does not exist must fail with 404
  and persist nothing. The handler of \<^verbatim>\<open>transactionController.ts\<close> has no reference check:
  for the shop's user and the unknown book \<^verbatim>\<open>nope\<close> it writes the order row, the item is
  refused by the foreign key, and the answer is 500 with the order row left in the store.
  The handler with the checks answers 404 on the same request and leaves the store as it was.
\<close>

theorem order_with_missing_book_persists_order:
  "createTransaction_bcrypt 9 ''o2'' item_ids missing_book_request shop
     = (reply 500 False ''Internal server error'' None,
        shop\<lparr>orders := orders shop
                 @ [\<lparr>o_id = ''o2'', o_user_id = ''u1'', o_created_at = 9, o_updated_at = 9\<rparr>]\<rparr>)
   \<and> createTransaction_uuid 9 ''o2'' item_ids missing_book_request shop
     = (reply 404 False ''Buku dengan id nope tidak ditemukan.'' None, shop)"
  by (simp add: createTransaction_bcrypt_def createTransaction_uuid_def missing_book_request_def
      shop_defs item_ids_def prisma_orders_create_def prisma_users_findUnique_def
      prisma_order_items_create_def prisma_books_findUnique_def int_column_def falsy_def
      Let_def reply_def)

subsection \<open>Totals per order\<close>









subsection \<open>Sorting the genre counts\<close>











subsection \<open>The frequency dictionary\<close>



















subsection \<open>The order of the entries\<close>










subsection \<open>Statistics\<close>












subsection \<open>Book updates\<close>

lemma updateBook_cases:
  assumes "updateBook now req s = (r, s')"
  shows "(s' = s \<and> status r \<noteq> 200)
     \<or> (status r = 200
        \<and> \<not> provided (br_price req) (\<lambda>p. js_lt p (Num 0))
        \<and> \<not> provided (br_stock_quantity req) (\<lambda>q. js_lt q (Num 0) \<or> \<not> isInteger q)
        \<and> (\<exists>b \<in> set (books s). \<exists>b'. b_id b = br_book_id req
              \<and> apply_book_data (updateBook_data now req) b = Some b' \<and> data r = Some b'
              \<and> s' = s\<lparr>books := map (\<lambda>x. if b_id x = br_book_id req then b' else x)
                                   (books s)\<rparr>))"
proof (cases "prisma_books_update (br_book_id req) (updateBook_data now req) s")
  case (Inl e)
  then show ?thesis
    using assms
    by (auto simp: updateBook_def reply_def split: if_splits prisma_error.splits)
next
  case (Inr p)
  obtain b' s1 where p: "p = (b', s1)" by (cases p)
  from prisma_books_update_result[OF Inr[unfolded p]] obtain b where
    "b \<in> set (books s)" "b_id b = br_book_id req"
    "apply_book_data (updateBook_data now req) b = Some b'"
    "s1 = s\<lparr>books := map (\<lambda>x. if b_id x = br_book_id req then b' else x) (books s)\<rparr>"
    by blast
  then show ?thesis
    using assms Inr p
    by (auto simp: updateBook_def reply_def split: if_splits)
qed







subsection \<open>Validation of numbers\<close>

lemma createBook_rejects_bad_numbers:
  assumes "br_authorization req \<noteq> None"
    "provided (br_stock_quantity req) (\<lambda>q. js_lt q (Num 0) \<or> \<not> isInteger q)
     \<or> provided (br_price req) (\<lambda>p. js_lt p (Num 0))"
  shows "status (fst (createBook now thisYear new_id req s)) = 400
     \<and> snd (createBook now thisYear new_id req s) = s"
  using assms
  by (auto simp: createBook_def Let_def provided_def reply_def isNaN_def isInteger_def
      split: option.splits)

lemma updateBook_rejects_bad_numbers:
  assumes "br_authorization req \<noteq> None"
    "provided (br_stock_quantity req) (\<lambda>q. js_lt q (Num 0) \<or> \<not> isInteger q)
     \<or> provided (br_price req) (\<lambda>p. js_lt p (Num 0))"
  shows "status (fst (updateBook now req s))
       = (if prisma_books_findFirst (\<lambda>b. b_id b = br_book_id req \<and> b_deleted_at b = None) s = None
          then 404 else 400)
     \<and> snd (updateBook now req s) = s"
  using assms
  by (auto simp: updateBook_def provided_def reply_def isNaN_def isInteger_def
      split: option.splits)

lemma createBook_cases:
  assumes "createBook now thisYear new_id req s = (r, s')"
  shows "s' = s
     \<or> (\<exists>b'. br_price req = Some (Num (b_price b'))
          \<and> br_stock_quantity req = Some (Num (of_int (b_stock_quantity b')))
          \<and> 0 \<le> b_price b' \<and> 0 \<le> b_stock_quantity b'
          \<and> ((\<exists>i. s' = s\<lparr>books := map (\<lambda>x. if b_id x = i then b' else x) (books s)\<rparr>)
              \<or> s' = s\<lparr>books := books s @ [b']\<rparr>))"
proof (cases "s' = s")
  case True
  then show ?thesis by simp
next
  case False
  let ?title = "the (br_title req)"
  let ?data = "no_book_data
                           \<lparr>bd_deleted_at := Some None,
                            bd_writer := br_writer req,
                            bd_publisher := br_publisher req,
                            bd_description :=
                              Some (if falsy (br_description req) then None
                                    else br_description req),
                            bd_publication_year := Some (the (br_publication_year req)),
                            bd_price := Some (the (br_price req)),
                            bd_stock_quantity := Some (the (br_stock_quantity req)),
                            bd_genre_id := Some (the (br_genre_id req)),
                            bd_updated_at := Some now\<rparr>"
  let ?cdata = "no_book_data
                           \<lparr>bd_title := Some ?title,
                            bd_writer := br_writer req,
                            bd_publisher := br_publisher req,
                            bd_description :=
                              Some (if falsy (br_description req) then None
                                    else br_description req),
                            bd_publication_year := Some (the (br_publication_year req)),
                            bd_price := Some (the (br_price req)),
                            bd_stock_quantity := Some (the (br_stock_quantity req)),
                            bd_genre_id := Some (the (br_genre_id req)),
                            bd_created_at := Some now,
                            bd_updated_at := Some now\<rparr>"
  have v: "br_price req \<noteq> None" "br_stock_quantity req \<noteq> None"
    "\<not> js_lt (the (br_price req)) (Num 0)" "\<not> js_lt (the (br_stock_quantity req)) (Num 0)"
    using assms False
    by (auto simp: createBook_def Let_def split: if_splits)
  have w: "(\<exists>i b'. prisma_books_update i ?data s = Inr (b', s'))
        \<or> (\<exists>b'. prisma_books_create new_id ?cdata s = Inr (b', s'))"
    using assms False
    by (auto simp: createBook_def Let_def
        split: if_splits option.splits sum.splits prisma_error.splits)
  then show ?thesis
  proof
    assume "\<exists>i b'. prisma_books_update i ?data s = Inr (b', s')"
    then obtain i b' where u: "prisma_books_update i ?data s = Inr (b', s')" by blast
    from prisma_books_update_result[OF u] obtain b where
      b: "apply_book_data ?data b = Some b'"
      "s' = s\<lparr>books := map (\<lambda>x. if b_id x = i then b' else x) (books s)\<rparr>"
      by blast
    have e: "the (br_price req) = Num (b_price b')"
      "the (br_stock_quantity req) = Num (of_int (b_stock_quantity b'))"
      using apply_book_data_fields(11,12)[OF b(1)] by (simp_all add: no_book_data_def)
    then have "br_price req = Some (Num (b_price b'))"
      "br_stock_quantity req = Some (Num (of_int (b_stock_quantity b')))"
      "0 \<le> b_price b'" "0 \<le> b_stock_quantity b'"
      using v by auto
    then show ?thesis using b(2) by blast
  next
    assume "\<exists>b'. prisma_books_create new_id ?cdata s = Inr (b', s')"
    then obtain b' where c: "prisma_books_create new_id ?cdata s = Inr (b', s')" by blast
    from prisma_books_create_result[OF c]
    have e: "s' = s\<lparr>books := books s @ [b']\<rparr>" "the (br_price req) = Num (b_price b')"
      "the (br_stock_quantity req) = Num (of_int (b_stock_quantity b'))"
      by (simp_all add: no_book_data_def)
    then have "br_price req = Some (Num (b_price b'))"
      "br_stock_quantity req = Some (Num (of_int (b_stock_quantity b')))"
      "0 \<le> b_price b'" "0 \<le> b_stock_quantity b'"
      using v by auto
    then show ?thesis using e(1) by blast
  qed
qed

lemma books_valid_replace:
  "books_valid s \<Longrightarrow> 0 \<le> b_price b' \<Longrightarrow> 0 \<le> b_stock_quantity b' \<Longrightarrow>
   books_valid (s\<lparr>books := map (\<lambda>x. if b_id x = i then b' else x) (books s)\<rparr>)"
  by (auto simp: books_valid_def)

lemma books_valid_append:
  "books_valid s \<Longrightarrow> 0 \<le> b_price b' \<Longrightarrow> 0 \<le> b_stock_quantity b' \<Longrightarrow>
   books_valid (s\<lparr>books := books s @ [b']\<rparr>)"
  by (auto simp: books_valid_def)

lemma createBook_books_valid:
  assumes "books_valid s"
  shows "books_valid (snd (createBook now thisYear new_id req s))"
proof -
  obtain r s' where c: "createBook now thisYear new_id req s = (r, s')"
    by (cases "createBook now thisYear new_id req s")
  from createBook_cases[OF c] have "books_valid s'"
    using assms by (auto intro!: books_valid_replace books_valid_append)
  then show ?thesis using c by simp
qed

lemma updateBook_books_valid:
  assumes "books_valid s"
  shows "books_valid (snd (updateBook now req s))"
proof -
  obtain r s' where u: "updateBook now req s = (r, s')" by (cases "updateBook now req s")
  from updateBook_cases[OF u] show ?thesis
  proof
    assume "s' = s \<and> status r \<noteq> 200"
    then show ?thesis using assms u by simp
  next
    assume a: "status r = 200
        \<and> \<not> provided (br_price req) (\<lambda>p. js_lt p (Num 0))
        \<and> \<not> provided (br_stock_quantity req) (\<lambda>q. js_lt q (Num 0) \<or> \<not> isInteger q)
        \<and> (\<exists>b \<in> set (books s). \<exists>b'. b_id b = br_book_id req
              \<and> apply_book_data (updateBook_data now req) b = Some b' \<and> data r = Some b'
              \<and> s' = s\<lparr>books := map (\<lambda>x. if b_id x = br_book_id req then b' else x)
                                   (books s)\<rparr>)"
    then obtain b b' where b: "b \<in> set (books s)"
      "apply_book_data (updateBook_data now req) b = Some b'"
      "s' = s\<lparr>books := map (\<lambda>x. if b_id x = br_book_id req then b' else x) (books s)\<rparr>"
      by blast
    have old: "0 \<le> b_price b" "0 \<le> b_stock_quantity b"
      using assms b(1) by (auto simp: books_valid_def)
    have "0 \<le> b_price b'"
      using apply_book_data_fields(11)[OF b(2)] a old(1)
      by (auto simp: updateBook_data_def no_book_data_def provided_def split: option.splits)
    moreover have "0 \<le> b_stock_quantity b'"
      using apply_book_data_fields(12)[OF b(2)] a old(2)
      by (auto simp: updateBook_data_def no_book_data_def provided_def split: option.splits)
    ultimately show ?thesis
      using assms b(3) u by (simp add: books_valid_replace)
  qed
qed

lemma deleteBook_books_valid:
  assumes "books_valid s"
  shows "books_valid (snd (deleteBook now req s))"
proof -
  let ?d = "no_book_data\<lparr>bd_deleted_at := Some (Some now), bd_updated_at := Some now\<rparr>"
  have "snd (deleteBook now req s) = s
      \<or> (\<exists>b'. prisma_books_update (br_book_id req) ?d s = Inr (b', snd (deleteBook now req s)))"
    by (auto simp: deleteBook_def Let_def split: option.splits sum.splits)
  then show ?thesis
  proof
    assume "snd (deleteBook now req s) = s"
    then show ?thesis using assms by simp
  next
    assume "\<exists>b'. prisma_books_update (br_book_id req) ?d s = Inr (b', snd (deleteBook now req s))"
    then obtain b' where
      u: "prisma_books_update (br_book_id req) ?d s = Inr (b', snd (deleteBook now req s))"
      by blast
    from prisma_books_update_result[OF u] obtain b where b: "b \<in> set (books s)"
      "apply_book_data ?d b = Some b'"
      "snd (deleteBook now req s)
         = s\<lparr>books := map (\<lambda>x. if b_id x = br_book_id req then b' else x) (books s)\<rparr>"
      by blast
    have "b_price b' = b_price b" "b_stock_quantity b' = b_stock_quantity b"
      using apply_book_data_fields(11,12)[OF b(2)] by (simp_all add: no_book_data_def)
    then have "0 \<le> b_price b'" "0 \<le> b_stock_quantity b'"
      using assms b(1) by (auto simp: books_valid_def)
    then show ?thesis using assms b(3) by (simp add: books_valid_replace)
  qed
qed

text \<open>
  \<^bold>\<open>C9.\<close> A create or update request with an authorization header whose \<open>stock_quantity\<close>
  is negative or not an integer, or whose \<open>price\<close> is negative, writes nothing; the create
  answers 400, and so does the update when it is addressed to an active book (404 when no
  active book has the identifier). Consequently, if no stored book has a negative price or
  stock, none has after any create, update or delete request. The stock of a stored book is
  an integer by the type of its column.
\<close>

theorem invalid_stock_and_price_rejected:
  "(br_authorization req \<noteq> None
    \<and> (provided (br_stock_quantity req) (\<lambda>q. js_lt q (Num 0) \<or> \<not> isInteger q)
       \<or> provided (br_price req) (\<lambda>p. js_lt p (Num 0)))
    \<longrightarrow> status (fst (createBook now thisYear new_id req s)) = 400
        \<and> snd (createBook now thisYear new_id req s) = s
        \<and> status (fst (updateBook now req s))
            = (if prisma_books_findFirst
                    (\<lambda>b. b_id b = br_book_id req \<and> b_deleted_at b = None) s = None
               then 404 else 400)
        \<and> snd (updateBook now req s) = s)
   \<and> (books_valid s
      \<longrightarrow> books_valid (snd (createBook now thisYear new_id req s))
          \<and> books_valid (snd (updateBook now req s))
          \<and> books_valid (snd (deleteBook now req s)))"
  using createBook_rejects_bad_numbers[of req now thisYear new_id s]
    updateBook_rejects_bad_numbers[of req now s]
    createBook_books_valid[of s now thisYear new_id req]
    updateBook_books_valid[of s now req] deleteBook_books_valid[of s now req]
  by blast

theorem invalid_stock_and_price_rejected_witness:
  "status (fst (createBook 9 2025 ''b9''
       ((book_id_request ''b2'')\<lparr>br_stock_quantity := Some (Num (- 1))\<rparr>) shop)) = 400
   \<and> snd (createBook 9 2025 ''b9''
       ((book_id_request ''b2'')\<lparr>br_stock_quantity := Some (Num (- 1))\<rparr>) shop) = shop
   \<and> status (fst (updateBook 9
       ((book_id_request ''b2'')\<lparr>br_stock_quantity := Some (Num (- 1))\<rparr>) shop)) = 400
   \<and> snd (updateBook 9
       ((book_id_request ''b2'')\<lparr>br_stock_quantity := Some (Num (- 1))\<rparr>) shop) = shop
   \<and> status (fst (updateBook 9
       ((book_id_request ''b2'')\<lparr>br_stock_quantity := Some (Num (5 / 2))\<rparr>) shop)) = 400
   \<and> snd (updateBook 9
       ((book_id_request ''b2'')\<lparr>br_price := Some (Num (- 3))\<rparr>) shop) = shop
   \<and> books_valid shop
   \<and> books_valid (snd (updateBook 9
       ((book_id_request ''b2'')\<lparr>br_stock_quantity := Some (Num 4)\<rparr>) shop))"
proof -
  note T = invalid_stock_and_price_rejected
  let ?neg = "(book_id_request ''b2'')\<lparr>br_stock_quantity := Some (Num (- 1))\<rparr>"
  let ?half = "(book_id_request ''b2'')\<lparr>br_stock_quantity := Some (Num (5 / 2))\<rparr>"
  let ?price = "(book_id_request ''b2'')\<lparr>br_price := Some (Num (- 3))\<rparr>"
  let ?good = "(book_id_request ''b2'')\<lparr>br_stock_quantity := Some (Num 4)\<rparr>"
  have f: "prisma_books_findFirst (\<lambda>b. b_id b = ''b2'' \<and> b_deleted_at b = None) shop \<noteq> None"
    by (simp add: prisma_books_findFirst_def shop_defs)
  have v: "books_valid shop" by (simp add: books_valid_def shop_defs)
  have "status (fst (createBook 9 2025 ''b9'' ?neg shop)) = 400
      \<and> snd (createBook 9 2025 ''b9'' ?neg shop) = shop
      \<and> status (fst (updateBook 9 ?neg shop)) = 400 \<and> snd (updateBook 9 ?neg shop) = shop"
    using T[of ?neg 9 2025 "''b9''" shop, THEN conjunct1] f
    by (simp add: book_id_request_def provided_def)
  moreover have "status (fst (updateBook 9 ?half shop)) = 400"
  proof -
    have "\<lfloor>5 / 2 :: rat\<rfloor> = 2" by (simp add: floor_eq_iff)
    then have "\<not> isInteger (Num (5 / 2))" by (simp add: isInteger_def)
    then show ?thesis
      using T[of ?half 9 2025 "''b9''" shop, THEN conjunct1] f
      by (simp add: book_id_request_def provided_def)
  qed
  moreover have "snd (updateBook 9 ?price shop) = shop"
    using T[of ?price 9 2025 "''b9''" shop, THEN conjunct1]
    by (simp add: book_id_request_def provided_def)
  moreover have "books_valid (snd (updateBook 9 ?good shop))"
    using T[of ?good 9 2025 "''b9''" shop, THEN conjunct2] v by simp
  ultimately show ?thesis using v by simp
qed

subsection \<open>The publication year\<close>

lemma createBook_rejects_year:
  assumes "br_authorization req \<noteq> None"
    "provided (br_publication_year req)
       (\<lambda>y. js_lt y (Num 0) \<or> js_gt y (Num (of_int (thisYear + 1))))"
  shows "status (fst (createBook now thisYear new_id req s)) = 400
     \<and> snd (createBook now thisYear new_id req s) = s"
  using assms
  by (auto simp: createBook_def Let_def provided_def reply_def split: option.splits)

lemma updateBook_year_only:
  assumes "distinct (map b_id (books s))" "b \<in> set (books s)" "b_deleted_at b = None"
  shows "updateBook now ((book_id_request (b_id b))\<lparr>br_publication_year := Some v\<rparr>) s =
     (if v = NaN then (reply 400 False ''publication_year harus number.'' None, s)
      else
        (case int_column v of
           None \<Rightarrow> (reply 500 False ''Terjadi kesalahan server.'' None, s)
         | Some y \<Rightarrow>
             (reply 200 True ''Buku berhasil diperbarui.''
                (Some (b\<lparr>b_publication_year := y, b_updated_at := now\<rparr>)),
              s\<lparr>books := map (\<lambda>x. if b_id x = b_id b
                                   then b\<lparr>b_publication_year := y, b_updated_at := now\<rparr>
                                   else x) (books s)\<rparr>)))"
proof -
  let ?req = "(book_id_request (b_id b))\<lparr>br_publication_year := Some v\<rparr>"
  have f: "prisma_books_findFirst (\<lambda>x. b_id x = b_id b \<and> b_deleted_at x = None) s = Some b"
    using find_active_by_id[OF assms(1,2)] assms(3) by simp
  have u: "prisma_books_findUnique (b_id b) s = Some b"
    using find_unique_key[OF assms(1,2)] by (simp add: prisma_books_findUnique_def)
  have a: "apply_book_data (updateBook_data now ?req) b
      = map_option (\<lambda>y. b\<lparr>b_publication_year := y, b_updated_at := now\<rparr>) (int_column v)"
    by (cases "int_column v")
      (simp_all add: apply_book_data_def updateBook_data_def no_book_data_def col_def keep_def
        book_id_request_def)
  have p: "prisma_books_update (b_id b) (updateBook_data now ?req) s =
     (case int_column v of
        None \<Rightarrow> Inl ColumnType
      | Some y \<Rightarrow>
          Inr (b\<lparr>b_publication_year := y, b_updated_at := now\<rparr>,
               s\<lparr>books := map (\<lambda>x. if b_id x = b_id b
                                    then b\<lparr>b_publication_year := y, b_updated_at := now\<rparr>
                                    else x) (books s)\<rparr>))"
    using u a
    by (cases "int_column v")
      (simp_all add: prisma_books_update_def provided_def updateBook_data_def no_book_data_def
        book_id_request_def)
  have q: "br_book_id ?req = b_id b" "br_authorization ?req \<noteq> None"
    "br_publication_year ?req = Some v" "br_price ?req = None" "br_stock_quantity ?req = None"
    "br_genre_id ?req = None"
    by (simp_all add: book_id_request_def)
  show ?thesis
    unfolding updateBook_def q
    using f p q(2)
    by (cases "int_column v") (auto simp: provided_def isNaN_def)
qed

text \<open>
  \<^bold>\<open>C10.\<close> Creating a book with a publication year below 0 or above the current year plus
  one is answered 400 and writes nothing. An update of an active book that carries only a
  publication year is answered 400 exactly when the year is not a number; every integer year
  the column can hold, negative or far in the future included, is answered 200 and stored.
  So the range that creation enforces is not kept by updates.
\<close>

theorem year_range_checked_on_create_only:
  "(br_authorization req \<noteq> None
    \<and> provided (br_publication_year req)
        (\<lambda>y. js_lt y (Num 0) \<or> js_gt y (Num (of_int (thisYear + 1))))
    \<longrightarrow> status (fst (createBook now thisYear new_id req s)) = 400
        \<and> snd (createBook now thisYear new_id req s) = s)
   \<and> (distinct (map b_id (books s)) \<and> b \<in> set (books s) \<and> b_deleted_at b = None
      \<longrightarrow> (case updateBook now ((book_id_request (b_id b))\<lparr>br_publication_year := Some v\<rparr>) s of
            (r, s') \<Rightarrow>
              (status r = 400) = (v = NaN)
              \<and> (\<forall>y. v = Num (of_int y) \<and> - 2147483648 \<le> y \<and> y \<le> 2147483647
                    \<longrightarrow> status r = 200
                        \<and> data r = Some (b\<lparr>b_publication_year := y, b_updated_at := now\<rparr>)
                        \<and> find (\<lambda>x. b_id x = b_id b) (books s')
                            = Some (b\<lparr>b_publication_year := y, b_updated_at := now\<rparr>))))"
proof (intro conjI impI)
  assume "br_authorization req \<noteq> None
    \<and> provided (br_publication_year req)
        (\<lambda>y. js_lt y (Num 0) \<or> js_gt y (Num (of_int (thisYear + 1))))"
  then show "status (fst (createBook now thisYear new_id req s)) = 400"
    "snd (createBook now thisYear new_id req s) = s"
    using createBook_rejects_year[of req thisYear now new_id s] by simp_all
next
  assume h: "distinct (map b_id (books s)) \<and> b \<in> set (books s) \<and> b_deleted_at b = None"
  then have i: "b_id b \<in> b_id ` set (books s)" by auto
  have u: "updateBook now ((book_id_request (b_id b))\<lparr>br_publication_year := Some v\<rparr>) s =
     (if v = NaN then (reply 400 False ''publication_year harus number.'' None, s)
      else
        (case int_column v of
           None \<Rightarrow> (reply 500 False ''Terjadi kesalahan server.'' None, s)
         | Some y \<Rightarrow>
             (reply 200 True ''Buku berhasil diperbarui.''
                (Some (b\<lparr>b_publication_year := y, b_updated_at := now\<rparr>)),
              s\<lparr>books := map (\<lambda>x. if b_id x = b_id b
                                   then b\<lparr>b_publication_year := y, b_updated_at := now\<rparr>
                                   else x) (books s)\<rparr>)))"
    using h by (intro updateBook_year_only) simp_all
  show "case updateBook now ((book_id_request (b_id b))\<lparr>br_publication_year := Some v\<rparr>) s of
            (r, s') \<Rightarrow>
              (status r = 400) = (v = NaN)
              \<and> (\<forall>y. v = Num (of_int y) \<and> - 2147483648 \<le> y \<and> y \<le> 2147483647
                    \<longrightarrow> status r = 200
                        \<and> data r = Some (b\<lparr>b_publication_year := y, b_updated_at := now\<rparr>)
                        \<and> find (\<lambda>x. b_id x = b_id b) (books s')
                            = Some (b\<lparr>b_publication_year := y, b_updated_at := now\<rparr>))"
    unfolding u using i
    by (auto simp: reply_def int_column_of_int find_replace_key split: option.splits)
qed

theorem year_range_checked_on_create_only_witness:
  "status (fst (createBook 9 2025 ''b9''
       ((book_id_request ''b2'')\<lparr>br_publication_year := Some (Num (- 5))\<rparr>) shop)) = 400
   \<and> status (fst (createBook 9 2025 ''b9''
       ((book_id_request ''b2'')\<lparr>br_publication_year := Some (Num 2027)\<rparr>) shop)) = 400
   \<and> status (fst (updateBook 9
       ((book_id_request ''b2'')\<lparr>br_publication_year := Some (Num (- 5))\<rparr>) shop)) = 200
   \<and> find (\<lambda>x. b_id x = ''b2'') (books (snd (updateBook 9
       ((book_id_request ''b2'')\<lparr>br_publication_year := Some (Num (- 5))\<rparr>) shop)))
       = Some (shop_odes\<lparr>b_publication_year := - 5, b_updated_at := 9\<rparr>)
   \<and> status (fst (updateBook 9
       ((book_id_request ''b2'')\<lparr>br_publication_year := Some (Num 9999)\<rparr>) shop)) = 200
   \<and> status (fst (updateBook 9
       ((book_id_request ''b2'')\<lparr>br_publication_year := Some NaN\<rparr>) shop)) = 400"
proof -
  note T = year_range_checked_on_create_only
  let ?y = "\<lambda>v. (book_id_request ''b2'')\<lparr>br_publication_year := Some v\<rparr>"
  have i: "b_id shop_odes = ''b2''" by (simp add: shop_defs)
  have h: "distinct (map b_id (books shop)) \<and> shop_odes \<in> set (books shop)
      \<and> b_deleted_at shop_odes = None"
    by (simp add: shop_defs)
  have "status (fst (createBook 9 2025 ''b9'' (?y (Num (- 5))) shop)) = 400"
    using T[of "?y (Num (- 5))" 2025 9 "''b9''" shop shop_odes NaN, THEN conjunct1]
    by (simp add: book_id_request_def provided_def)
  moreover have "status (fst (createBook 9 2025 ''b9'' (?y (Num 2027)) shop)) = 400"
    using T[of "?y (Num 2027)" 2025 9 "''b9''" shop shop_odes NaN, THEN conjunct1]
    by (simp add: book_id_request_def provided_def js_gt_def)
  moreover have U: "(status (fst (updateBook 9 (?y v) shop)) = 400) = (v = NaN)
     \<and> (\<forall>y. v = Num (of_int y) \<and> - 2147483648 \<le> y \<and> y \<le> 2147483647
           \<longrightarrow> status (fst (updateBook 9 (?y v) shop)) = 200
               \<and> data (fst (updateBook 9 (?y v) shop))
                   = Some (shop_odes\<lparr>b_publication_year := y, b_updated_at := 9\<rparr>)
               \<and> find (\<lambda>x. b_id x = ''b2'') (books (snd (updateBook 9 (?y v) shop)))
                   = Some (shop_odes\<lparr>b_publication_year := y, b_updated_at := 9\<rparr>))" for v
    using T[of "?y NaN" 2025 9 "''b9''" shop shop_odes v, THEN conjunct2, THEN mp, OF h]
    by (simp add: i case_prod_unfold)
  moreover have "status (fst (updateBook 9 (?y (Num (- 5))) shop)) = 200
     \<and> find (\<lambda>x. b_id x = ''b2'') (books (snd (updateBook 9 (?y (Num (- 5))) shop)))
       = Some (shop_odes\<lparr>b_publication_year := - 5, b_updated_at := 9\<rparr>)"
    using U[of "Num (- 5)", THEN conjunct2, rule_format, of "- 5"] by simp
  moreover have "status (fst (updateBook 9 (?y (Num 9999)) shop)) = 200"
    using U[of "Num 9999", THEN conjunct2, rule_format, of 9999] by simp
  moreover have "status (fst (updateBook 9 (?y NaN) shop)) = 400"
    using U[of NaN, THEN conjunct1] by simp
  ultimately show ?thesis by simp
qed

end
